theory Spec2Isabelle
  imports Main "HOL-Library.Word"
begin

section \<open>Plugin discovery and lifecycle composition (src/framework/plugin.ts)\<close>

text \<open>
  A shallow embedding of \<^verbatim>\<open>plugin.ts\<close>. JavaScript values that the file never inspects stay
  type variables: \<open>'f\<close> for functions stored as hooks, \<open>'l\<close> for the project layout, \<open>'c\<close> for
  a plugin's runtime contributions, \<open>'x\<close> for the state of everything outside this file
  that plugin code can read and write.
\<close>

subsection \<open>Strings\<close>

text \<open>
  A JavaScript string is a sequence of 16-bit code units. \<open>js\<close> writes the string of a
  literal whose characters are below 256. A thrown value is kept as the string
  \<^verbatim>\<open>${error}\<close> renders.
\<close>

type_synonym jsstring = "16 word list"

definition js :: "string \<Rightarrow> jsstring" where
  "js s = map of_char s"

type_synonym exn = jsstring

subsection \<open>The name matcher\<close>

text \<open>
  Both regular expressions of the file, \<^verbatim>\<open>/^pumpkins-plugin-.+/\<close> and
  \<^verbatim>\<open>/^pumpkins-plugin-(.+)/\<close>, are anchored at the start of the string only and have no
  flag, so their \<^verbatim>\<open>.\<close> matches every code unit but the four line terminators of ECMAScript:
  LF, CR, U+2028 and U+2029.
\<close>

definition pluginPrefix :: jsstring where
  "pluginPrefix = js ''pumpkins-plugin-''"

definition lineTerminator :: "16 word \<Rightarrow> bool" where
  "lineTerminator c \<longleftrightarrow> c = 0x000A \<or> c = 0x000D \<or> c = 0x2028 \<or> c = 0x2029"

text \<open>The greedy \<^verbatim>\<open>.+\<close> at the start of \<open>s\<close>: the longest run of code units that are
  not line terminators, which must not be empty.\<close>

definition dotPlus :: "jsstring \<Rightarrow> jsstring option" where
  "dotPlus s =
     (let m = takeWhile (\<lambda>c. \<not> lineTerminator c) s
      in if m = [] then None else Some m)"

text \<open>\<^verbatim>\<open>s.match(/^pumpkins-plugin-(.+)/)\<close>: \<open>None\<close> is \<^verbatim>\<open>null\<close>, \<open>Some g\<close> a match whose
  group 1 is \<open>g\<close>.\<close>

definition matchPluginPattern :: "jsstring \<Rightarrow> jsstring option" where
  "matchPluginPattern s =
     (if take (length pluginPrefix) s = pluginPrefix
      then dotPlus (drop (length pluginPrefix) s)
      else None)"

definition parsePluginName :: "jsstring \<Rightarrow> jsstring option" where
  "parsePluginName packageName =
     (case matchPluginPattern packageName of
        None \<Rightarrow> None
      | Some pluginName \<Rightarrow> Some pluginName)"

subsection \<open>The manifest\<close>

text \<open>
  What \<^verbatim>\<open>fs.read('package.json', 'json')\<close> yields is \<^verbatim>\<open>undefined\<close> (\<open>None\<close>) or a
  parsed JSON value. \<open>JObject\<close> lists the own properties of the object in the order
  \<^verbatim>\<open>Object.keys\<close> enumerates them, which for keys that are not array indices is the order
  of the document.
\<close>

datatype json =
    JNull
  | JBool bool
  | JNumber int
  | JString jsstring
  | JArray "json list"
  | JObject "(jsstring \<times> json) list"

text \<open>\<^verbatim>\<open>packageJson?.dependencies\<close>: \<open>None\<close> is \<^verbatim>\<open>undefined\<close>.\<close>

fun dependenciesOf :: "json \<Rightarrow> json option" where
  "dependenciesOf (JObject kvs) = map_of kvs (js ''dependencies'')"
| "dependenciesOf _ = None"

fun digitChar :: "nat \<Rightarrow> 16 word" where
  "digitChar n = of_nat (48 + n)"

fun decimal :: "nat \<Rightarrow> jsstring" where
  "decimal n = (if n < 10 then [digitChar n] else decimal (n div 10) @ [digitChar (n mod 10)])"

text \<open>\<^verbatim>\<open>Object.keys\<close>: the keys of an object, the indices of an array or a string, nothing
  for a boolean or a number (\<^verbatim>\<open>null\<close> never reaches it, see below).\<close>

fun objectKeys :: "json \<Rightarrow> jsstring list" where
  "objectKeys (JObject kvs) = map fst kvs"
| "objectKeys (JArray xs) = map decimal [0..<length xs]"
| "objectKeys (JString s) = map decimal [0..<length s]"
| "objectKeys _ = []"

text \<open>\<^verbatim>\<open>packageJson?.dependencies ?? {}\<close>\<close>

definition depsOf :: "json \<Rightarrow> json" where
  "depsOf packageJson =
     (case dependenciesOf packageJson of
        None \<Rightarrow> JObject []
      | Some JNull \<Rightarrow> JObject []
      | Some deps \<Rightarrow> deps)"

text \<open>
  The matched identifiers of a manifest: the constant \<^verbatim>\<open>pumpkinsPluginDepNames\<close> of
  \<^verbatim>\<open>__doLoadAllFromPackageJson\<close>, as a function of the manifest. The pattern of the \<^verbatim>\<open>filter\<close>
  is the one of \<^verbatim>\<open>parsePluginName\<close> without the group, and \<^verbatim>\<open>filter\<close> keeps an identifier when
  the match is not \<^verbatim>\<open>null\<close>.
\<close>

definition pumpkinsPluginDepNames :: "json \<Rightarrow> jsstring list" where
  "pumpkinsPluginDepNames packageJson =
     filter (\<lambda>depName. matchPluginPattern depName \<noteq> None) (objectKeys (depsOf packageJson))"

subsection \<open>Workflow hooks\<close>

text \<open>
  The type \<^verbatim>\<open>WorkflowHooks\<close> is a promise of the compiler only. When the program runs the
  hooks record is an object that a workflow definer is handed and may change in any way:
  assign, overwrite or \<^verbatim>\<open>delete\<close> any property, at any depth. So it is kept as the list of
  its own properties, each a key and a value, in the order of their creation.
\<close>

datatype 'f jsvalue =
    Undefined
  | Callback 'f
  | Text jsstring
  | Array "'f jsvalue list"
  | Object "(jsstring \<times> 'f jsvalue) list"

type_synonym 'f WorkflowHooks = "(jsstring \<times> 'f jsvalue) list"

text \<open>The object literal of \<^verbatim>\<open>loadWorkflowPlugin\<close>:
  \<^verbatim>\<open>{ create: {}, dev: { addToSettings: {} }, build: {}, generate: {} }\<close>\<close>

definition defaultHooks :: "'f WorkflowHooks" where
  "defaultHooks =
     [(js ''create'', Object []),
      (js ''dev'', Object [(js ''addToSettings'', Object [])]),
      (js ''build'', Object []),
      (js ''generate'', Object [])]"

text \<open>
  The shape the spec speaks of: the record has the four phase keys, and the value under
  \<^verbatim>\<open>dev\<close> is an object that has the key \<^verbatim>\<open>addToSettings\<close>.
\<close>

definition hasPhaseKeys :: "'f WorkflowHooks \<Rightarrow> bool" where
  "hasPhaseKeys hooks \<longleftrightarrow>
     map_of hooks (js ''create'') \<noteq> None \<and>
     map_of hooks (js ''generate'') \<noteq> None \<and>
     map_of hooks (js ''build'') \<noteq> None \<and>
     (case map_of hooks (js ''dev'') of
        Some (Object dev) \<Rightarrow> map_of dev (js ''addToSettings'') \<noteq> None
      | _ \<Rightarrow> False)"

subsection \<open>Plugin code\<close>

text \<open>
  Plugin code is JavaScript from outside the file: it may throw, and it may read and write
  state of its own, the \<open>'x\<close> it is handed and hands back. A workflow definer mutates the
  hooks object it is given; here it returns the properties of the object as it left them.
\<close>

type_synonym ('f, 'l, 'x) WorkflowDefiner =
  "'f WorkflowHooks \<Rightarrow> 'l \<Rightarrow> 'x \<Rightarrow> (exn + 'f WorkflowHooks) \<times> 'x"

type_synonym ('c, 'x) RuntimePlugin =
  "'x \<Rightarrow> (exn + 'c) \<times> 'x"

text \<open>One call of a registrar of the lens: \<^verbatim>\<open>lens.runtime(f)\<close> or \<^verbatim>\<open>lens.workflow(f)\<close>.\<close>

datatype ('f, 'l, 'c, 'x) registration =
    Runtime "('c, 'x) RuntimePlugin"
  | Workflow "('f, 'l, 'x) WorkflowDefiner"

text \<open>
  \<^verbatim>\<open>lens.utils\<close>: the logger, the two command runners and the prompt are the same objects
  for every plugin; only \<^verbatim>\<open>debug\<close> depends on the plugin, through its namespace
  \<^verbatim>\<open>plugin:${pluginName}\<close>.
\<close>

record utils =
  debug :: jsstring

text \<open>
  One invocation \<^verbatim>\<open>definer(lens)\<close>: the calls it makes on the two registrars of the lens
  before it returns or throws, in order, the value it throws if it throws, and the outside
  state it leaves. (A lens that the defining function keeps and calls after it has returned
  is not modelled.)
\<close>

type_synonym ('f, 'l, 'c, 'x) Definer =
  "utils \<Rightarrow> 'x \<Rightarrow> (('f, 'l, 'c, 'x) registration list \<times> exn option) \<times> 'x"

subsection \<open>The variables a Driver Creator closes over\<close>

text \<open>
  \<^verbatim>\<open>create(definer)\<close> declares \<^verbatim>\<open>maybeWorkflowPlugin\<close> and \<^verbatim>\<open>maybeRuntimePlugin\<close> in its own
  body, outside the function it returns. The returned function and the loaders of every
  Driver it makes share these two variables and \<^verbatim>\<open>definer\<close>. The store \<open>closures\<close> holds one
  such scope per call of \<^verbatim>\<open>create\<close>, at the address \<open>next_closure\<close> had at the call.
\<close>

record ('f, 'l, 'c, 'x) closure =
  definer :: "('f, 'l, 'c, 'x) Definer"
  maybeWorkflowPlugin :: "('f, 'l, 'x) WorkflowDefiner option"
  maybeRuntimePlugin :: "('c, 'x) RuntimePlugin option"

record ('f, 'l, 'c, 'x) world =
  closures :: "nat \<Rightarrow> ('f, 'l, 'c, 'x) closure"
  next_closure :: nat
  external :: 'x

record ('f, 'l, 'c, 'x) Driver =
  name :: jsstring
  extendsWorkflow :: bool
  extendsRuntime :: bool
  loadWorkflowPlugin ::
    "'l \<Rightarrow> ('f, 'l, 'c, 'x) world \<Rightarrow> (exn + 'f WorkflowHooks) \<times> ('f, 'l, 'c, 'x) world"
  loadRuntimePlugin ::
    "('f, 'l, 'c, 'x) world \<Rightarrow> (exn + 'c option) \<times> ('f, 'l, 'c, 'x) world"

type_synonym ('f, 'l, 'c, 'x) DriverCreator =
  "jsstring \<Rightarrow> ('f, 'l, 'c, 'x) world \<Rightarrow>
     (exn + ('f, 'l, 'c, 'x) Driver) \<times> ('f, 'l, 'c, 'x) world"

subsection \<open>create\<close>

text \<open>The two registrars of the lens assign the shared variables.\<close>

fun register ::
  "('f, 'l, 'c, 'x) closure \<Rightarrow> ('f, 'l, 'c, 'x) registration \<Rightarrow> ('f, 'l, 'c, 'x) closure"
where
  "register cl (Runtime f) = cl\<lparr> maybeRuntimePlugin := Some f \<rparr>"
| "register cl (Workflow f) = cl\<lparr> maybeWorkflowPlugin := Some f \<rparr>"

text \<open>The method \<^verbatim>\<open>loadWorkflowPlugin(layout)\<close> of a Driver whose creator's scope is at \<open>ref\<close>:
  it returns the object it built, as the definer left it.\<close>

definition driver_loadWorkflowPlugin ::
  "nat \<Rightarrow> 'l \<Rightarrow> ('f, 'l, 'c, 'x) world \<Rightarrow> (exn + 'f WorkflowHooks) \<times> ('f, 'l, 'c, 'x) world"
where
  "driver_loadWorkflowPlugin ref layout w =
     (let hooks = defaultHooks
      in case maybeWorkflowPlugin (closures w ref) of
           None \<Rightarrow> (Inr hooks, w)
         | Some f \<Rightarrow>
             (case f hooks layout (external w) of
                (Inl error, x) \<Rightarrow> (Inl error, w\<lparr> external := x \<rparr>)
              | (Inr hooks', x) \<Rightarrow> (Inr hooks', w\<lparr> external := x \<rparr>)))"

text \<open>The method \<^verbatim>\<open>loadRuntimePlugin()\<close>: \<^verbatim>\<open>maybeRuntimePlugin?.()\<close>, \<open>None\<close> for \<^verbatim>\<open>undefined\<close>.\<close>

definition driver_loadRuntimePlugin ::
  "nat \<Rightarrow> ('f, 'l, 'c, 'x) world \<Rightarrow> (exn + 'c option) \<times> ('f, 'l, 'c, 'x) world"
where
  "driver_loadRuntimePlugin ref w =
     (case maybeRuntimePlugin (closures w ref) of
        None \<Rightarrow> (Inr None, w)
      | Some f \<Rightarrow>
          (case f (external w) of
             (Inl error, x) \<Rightarrow> (Inl error, w\<lparr> external := x \<rparr>)
           | (Inr contributions, x) \<Rightarrow> (Inr (Some contributions), w\<lparr> external := x \<rparr>)))"

text \<open>The function \<^verbatim>\<open>pluginName => { ... }\<close> that \<^verbatim>\<open>create\<close> returns, for the scope at \<open>ref\<close>.\<close>

definition driverCreator :: "nat \<Rightarrow> ('f, 'l, 'c, 'x) DriverCreator" where
  "driverCreator ref pluginName w =
     (case definer (closures w ref) \<lparr> debug = js ''plugin:'' @ pluginName \<rparr> (external w) of
        ((calls, thrown), x) \<Rightarrow>
          (let scope = foldl register (closures w ref) calls;
               w' = w\<lparr> closures := (closures w)(ref := scope), external := x \<rparr>
           in case thrown of
                Some error \<Rightarrow> (Inl error, w')
              | None \<Rightarrow>
                  (Inr \<lparr> name = pluginName,
                         extendsWorkflow = (maybeWorkflowPlugin scope \<noteq> None),
                         extendsRuntime = (maybeRuntimePlugin scope \<noteq> None),
                         loadWorkflowPlugin = driver_loadWorkflowPlugin ref,
                         loadRuntimePlugin = driver_loadRuntimePlugin ref \<rparr>,
                   w')))"

definition create ::
  "('f, 'l, 'c, 'x) Definer \<Rightarrow> ('f, 'l, 'c, 'x) world \<Rightarrow>
     ('f, 'l, 'c, 'x) DriverCreator \<times> ('f, 'l, 'c, 'x) world"
where
  "create d w =
     (let ref = next_closure w;
          scope = \<lparr> definer = d, maybeWorkflowPlugin = None, maybeRuntimePlugin = None \<rparr>
      in (driverCreator ref,
          w\<lparr> closures := (closures w)(ref := scope), next_closure := Suc ref \<rparr>))"

subsection \<open>Loading the plugins of a manifest\<close>

text \<open>
  Modelled from the spec: \<^verbatim>\<open>fatal\<close> is imported from \<^verbatim>\<open>../utils\<close>, which is not among the
  sources. By the spec it is the "unrecoverable-by-design termination of the entire load
  operation with a diagnostic", and the code relies on it never returning (each variable
  assigned in a \<^verbatim>\<open>try\<close> is used after the \<^verbatim>\<open>catch\<close> that calls it). The five messages of the
  file are the five constructors, each with the plugin name and the error it interpolates.
\<close>

datatype diagnostic =
    ImportError jsstring exn
  | NoCreateExport jsstring
  | LoadError jsstring exn
  | WorkflowComponentError jsstring exn
  | RuntimeComponentError jsstring exn

fun diagnosticPlugin :: "diagnostic \<Rightarrow> jsstring" where
  "diagnosticPlugin (ImportError pluginName error) = pluginName"
| "diagnosticPlugin (NoCreateExport pluginName) = pluginName"
| "diagnosticPlugin (LoadError pluginName error) = pluginName"
| "diagnosticPlugin (WorkflowComponentError pluginName error) = pluginName"
| "diagnosticPlugin (RuntimeComponentError pluginName error) = pluginName"

text \<open>
  How a call ends when it returns nothing: by \<^verbatim>\<open>fatal\<close> with its diagnostic, or by an
  exception that no \<^verbatim>\<open>try\<close> of the file catches. The file has one place for the second:
  the property access \<^verbatim>\<open>SomePlugin.create\<close> stands after the \<^verbatim>\<open>try\<close> around \<^verbatim>\<open>require\<close>, and
  on \<^verbatim>\<open>null\<close> or \<^verbatim>\<open>undefined\<close> it throws a \<^verbatim>\<open>TypeError\<close>, whose message names the property and
  not the plugin. Nothing runs after either.
\<close>

datatype ending =
    Fatal diagnostic
  | TypeError

text \<open>What a module exports as \<^verbatim>\<open>create\<close>, as \<^verbatim>\<open>typeof\<close> sees it.\<close>

datatype ('f, 'l, 'c, 'x) export =
    NotAFunction
  | Function "('f, 'l, 'c, 'x) DriverCreator"

record ('f, 'l, 'c, 'x) PluginPackage =
  package_create :: "('f, 'l, 'c, 'x) export"

text \<open>
  What \<^verbatim>\<open>require\<close> returns is whatever the module assigned to \<^verbatim>\<open>module.exports\<close>: \<^verbatim>\<open>null\<close> or
  \<^verbatim>\<open>undefined\<close> (\<open>Nullish\<close>), or a value on which reading \<^verbatim>\<open>create\<close> gives a function or
  something else. The declared type \<^verbatim>\<open>PluginPackage\<close> is not checked when the program runs.
  (A module whose \<^verbatim>\<open>create\<close> is an accessor that throws, or that gives another value each
  time it is read, is not modelled; the first would end the call uncaught as \<open>Nullish\<close> does.)
\<close>

datatype ('f, 'l, 'c, 'x) exports =
    Nullish
  | Exports "('f, 'l, 'c, 'x) PluginPackage"

text \<open>\<^verbatim>\<open>require\<close> belongs to the host: it runs the module, which may throw and may call
  \<^verbatim>\<open>create\<close>. It is a parameter of everything below.\<close>

type_synonym ('f, 'l, 'c, 'x) require =
  "jsstring \<Rightarrow> ('f, 'l, 'c, 'x) world \<Rightarrow>
     (exn + ('f, 'l, 'c, 'x) exports) \<times> ('f, 'l, 'c, 'x) world"

text \<open>
  \<^verbatim>\<open>Array.prototype.map\<close> with a callback that may end the process: the elements in order,
  each in the state the one before left, stopping at the first \<open>Inl\<close>.
\<close>

fun array_map :: "('a \<Rightarrow> 's \<Rightarrow> (ending + 'b) \<times> 's) \<Rightarrow> 'a list \<Rightarrow> 's \<Rightarrow> (ending + 'b list) \<times> 's"
where
  "array_map f [] w = (Inr [], w)"
| "array_map f (a # as) w =
     (case f a w of
        (Inl e, w1) \<Rightarrow> (Inl e, w1)
      | (Inr b, w1) \<Rightarrow>
          (case array_map f as w1 of
             (Inl e, w2) \<Rightarrow> (Inl e, w2)
           | (Inr bs, w2) \<Rightarrow> (Inr (b # bs), w2)))"

text \<open>
  The callback of the \<^verbatim>\<open>map\<close> in \<^verbatim>\<open>__doLoadAllFromPackageJson\<close>. The \<^verbatim>\<open>!\<close> after
  \<^verbatim>\<open>parsePluginName(depName)\<close> checks nothing when the program runs: a \<^verbatim>\<open>null\<close> would go on
  and be printed as \<^verbatim>\<open>null\<close>.
\<close>

definition instantiatePlugin ::
  "('f, 'l, 'c, 'x) require \<Rightarrow> jsstring \<Rightarrow> ('f, 'l, 'c, 'x) world \<Rightarrow>
     (ending + ('f, 'l, 'c, 'x) Driver) \<times> ('f, 'l, 'c, 'x) world"
where
  "instantiatePlugin require depName w =
     (let pluginName = (case parsePluginName depName of Some n \<Rightarrow> n | None \<Rightarrow> js ''null'')
      in case require depName w of
           (Inl error, w1) \<Rightarrow> (Inl (Fatal (ImportError pluginName error)), w1)
         | (Inr Nullish, w1) \<Rightarrow> (Inl TypeError, w1)
         | (Inr (Exports SomePlugin), w1) \<Rightarrow>
             (case package_create SomePlugin of
                NotAFunction \<Rightarrow> (Inl (Fatal (NoCreateExport pluginName)), w1)
              | Function creator \<Rightarrow>
                  (case creator pluginName w1 of
                     (Inl error, w2) \<Rightarrow> (Inl (Fatal (LoadError pluginName error)), w2)
                   | (Inr instantiatedPlugin, w2) \<Rightarrow> (Inr instantiatedPlugin, w2))))"

text \<open>\<^verbatim>\<open>__doLoadAllFromPackageJson\<close> (an Isabelle name starts with a letter).\<close>

definition doLoadAllFromPackageJson ::
  "('f, 'l, 'c, 'x) require \<Rightarrow> json option \<Rightarrow> ('f, 'l, 'c, 'x) world \<Rightarrow>
     (ending + ('f, 'l, 'c, 'x) Driver list) \<times> ('f, 'l, 'c, 'x) world"
where
  "doLoadAllFromPackageJson require packageJson w =
     (case packageJson of
        None \<Rightarrow> (Inr [], w)
      | Some pkg \<Rightarrow>
          (let deps = depsOf pkg;
               depNames = objectKeys deps
           in if length depNames = 0 then (Inr [], w)
              else
                (let pluginDepNames = filter (\<lambda>depName. matchPluginPattern depName \<noteq> None) depNames
                 in if length pluginDepNames = 0 then (Inr [], w)
                    else array_map (instantiatePlugin require) pluginDepNames w)))"

text \<open>
  The two entry points read the manifest and call the shared function. The reads belong to
  the file system library; \<open>packageJson\<close> is what \<^verbatim>\<open>await fs.readAsync(...)\<close>, respectively
  \<^verbatim>\<open>fs.read(...)\<close>, evaluates to, and a promise is the value it resolves to.
\<close>

definition loadAllFromPackageJson ::
  "('f, 'l, 'c, 'x) require \<Rightarrow> json option \<Rightarrow> ('f, 'l, 'c, 'x) world \<Rightarrow>
     (ending + ('f, 'l, 'c, 'x) Driver list) \<times> ('f, 'l, 'c, 'x) world"
where
  "loadAllFromPackageJson require packageJson w = doLoadAllFromPackageJson require packageJson w"

definition loadAllFromPackageJsonSync ::
  "('f, 'l, 'c, 'x) require \<Rightarrow> json option \<Rightarrow> ('f, 'l, 'c, 'x) world \<Rightarrow>
     (ending + ('f, 'l, 'c, 'x) Driver list) \<times> ('f, 'l, 'c, 'x) world"
where
  "loadAllFromPackageJsonSync require packageJson w = doLoadAllFromPackageJson require packageJson w"

subsection \<open>Aggregating hooks and contributions\<close>

text \<open>The callback of the \<^verbatim>\<open>map\<close> in \<^verbatim>\<open>loadAllWorkflowPluginsFromPackageJson\<close>.\<close>

definition loadWorkflowComponent ::
  "'l \<Rightarrow> ('f, 'l, 'c, 'x) Driver \<Rightarrow> ('f, 'l, 'c, 'x) world \<Rightarrow>
     (ending + 'f WorkflowHooks) \<times> ('f, 'l, 'c, 'x) world"
where
  "loadWorkflowComponent layout driver w =
     (case loadWorkflowPlugin driver layout w of
        (Inl error, w1) \<Rightarrow> (Inl (Fatal (WorkflowComponentError (name driver) error)), w1)
      | (Inr workflowComponent, w1) \<Rightarrow> (Inr workflowComponent, w1))"

definition loadAllWorkflowPluginsFromPackageJson ::
  "('f, 'l, 'c, 'x) require \<Rightarrow> json option \<Rightarrow> 'l \<Rightarrow> ('f, 'l, 'c, 'x) world \<Rightarrow>
     (ending + 'f WorkflowHooks list) \<times> ('f, 'l, 'c, 'x) world"
where
  "loadAllWorkflowPluginsFromPackageJson require packageJson layout w =
     (case loadAllFromPackageJson require packageJson w of
        (Inl e, w1) \<Rightarrow> (Inl e, w1)
      | (Inr plugins, w1) \<Rightarrow>
          array_map (loadWorkflowComponent layout) (filter extendsWorkflow plugins) w1)"

text \<open>
  The callback of the \<^verbatim>\<open>map\<close> in \<^verbatim>\<open>__doLoadAllRuntimePluginsFromPackageJson\<close>. The \<^verbatim>\<open>!\<close>
  after \<^verbatim>\<open>driver.loadRuntimePlugin()\<close> checks nothing when the program runs, so the element
  is what the loader returned, \<^verbatim>\<open>undefined\<close> (\<open>None\<close>) included.
\<close>

definition loadRuntimeComponent ::
  "('f, 'l, 'c, 'x) Driver \<Rightarrow> ('f, 'l, 'c, 'x) world \<Rightarrow>
     (ending + 'c option) \<times> ('f, 'l, 'c, 'x) world"
where
  "loadRuntimeComponent driver w =
     (case loadRuntimePlugin driver w of
        (Inl error, w1) \<Rightarrow> (Inl (Fatal (RuntimeComponentError (name driver) error)), w1)
      | (Inr runtimeContributions, w1) \<Rightarrow> (Inr runtimeContributions, w1))"

definition doLoadAllRuntimePluginsFromPackageJson ::
  "('f, 'l, 'c, 'x) Driver list \<Rightarrow> ('f, 'l, 'c, 'x) world \<Rightarrow>
     (ending + 'c option list) \<times> ('f, 'l, 'c, 'x) world"
where
  "doLoadAllRuntimePluginsFromPackageJson plugins w =
     array_map loadRuntimeComponent (filter extendsRuntime plugins) w"

definition loadAllRuntimePluginsFromPackageJson ::
  "('f, 'l, 'c, 'x) require \<Rightarrow> json option \<Rightarrow> ('f, 'l, 'c, 'x) world \<Rightarrow>
     (ending + 'c option list) \<times> ('f, 'l, 'c, 'x) world"
where
  "loadAllRuntimePluginsFromPackageJson require packageJson w =
     (case loadAllFromPackageJson require packageJson w of
        (Inl e, w1) \<Rightarrow> (Inl e, w1)
      | (Inr plugins, w1) \<Rightarrow> doLoadAllRuntimePluginsFromPackageJson plugins w1)"

definition loadAllRuntimePluginsFromPackageJsonSync ::
  "('f, 'l, 'c, 'x) require \<Rightarrow> json option \<Rightarrow> ('f, 'l, 'c, 'x) world \<Rightarrow>
     (ending + 'c option list) \<times> ('f, 'l, 'c, 'x) world"
where
  "loadAllRuntimePluginsFromPackageJsonSync require packageJson w =
     (case loadAllFromPackageJsonSync require packageJson w of
        (Inl e, w1) \<Rightarrow> (Inl e, w1)
      | (Inr plugins, w1) \<Rightarrow> doLoadAllRuntimePluginsFromPackageJson plugins w1)"

subsection \<open>How the store evolves\<close>

text \<open>
  \<open>reaches w v\<close>: the world \<open>v\<close> comes from \<open>w\<close> by steps of this file and of plugin code, in
  any number and order: a call of \<^verbatim>\<open>create\<close>, an application of a function that \<^verbatim>\<open>create\<close>
  returned, and anything that changes the outside state only (a definer, a producer, a
  loader of a Driver).
\<close>

inductive reaches :: "('f, 'l, 'c, 'x) world \<Rightarrow> ('f, 'l, 'c, 'x) world \<Rightarrow> bool" where
  reaches_refl: "reaches w w"
| reaches_create: "reaches w w1 \<Longrightarrow> create d w1 = (creator, w2) \<Longrightarrow> reaches w w2"
| reaches_apply:
    "reaches w w1 \<Longrightarrow> driverCreator ref pluginName w1 = (result, w2) \<Longrightarrow> reaches w w2"
| reaches_external: "reaches w w1 \<Longrightarrow> reaches w (w1\<lparr> external := x \<rparr>)"

subsection \<open>Calls made in turn\<close>

text \<open>
  \<open>in_turn f as w bs w'\<close>: starting in the state \<open>w\<close>, the calls \<open>f\<close> of the elements of \<open>as\<close>,
  made one after the other, each in the state the one before left, all returned; the
  i-th returned the i-th element of \<open>bs\<close>, and the last left the state \<open>w'\<close>. The list \<open>ws\<close>
  holds the states between the calls.
\<close>

definition in_turn ::
  "('a \<Rightarrow> 's \<Rightarrow> ('e + 'b) \<times> 's) \<Rightarrow> 'a list \<Rightarrow> 's \<Rightarrow> 'b list \<Rightarrow> 's \<Rightarrow> bool"
where
  "in_turn f as w bs w' \<longleftrightarrow>
     (\<exists>ws. length ws = Suc (length as) \<and> length bs = length as \<and>
           ws ! 0 = w \<and> ws ! length as = w' \<and>
           (\<forall>i<length as. f (as ! i) (ws ! i) = (Inr (bs ! i), ws ! Suc i)))"

subsection \<open>Example plugins and manifests\<close>

text \<open>
  Concrete inputs for the instances below. Hook functions, layouts and contributions are
  named by Isabelle strings; the outside state counts the invocations of defining
  functions. In \<open>initialWorld\<close> \<^verbatim>\<open>create\<close> was never called.
\<close>

definition initialWorld :: "(string, string, string, nat) world" where
  "initialWorld =
     \<lparr> closures = (\<lambda>_. \<lparr> definer = (\<lambda>u x. (([], None), x)),
                           maybeWorkflowPlugin = None, maybeRuntimePlugin = None \<rparr>),
       next_closure = 0,
       external = 0 \<rparr>"

text \<open>The assignment \<^verbatim>\<open>object[k] = v\<close> and \<^verbatim>\<open>delete object[k]\<close> on the properties of an
  object.\<close>

fun setProperty :: "jsstring \<Rightarrow> 'v \<Rightarrow> (jsstring \<times> 'v) list \<Rightarrow> (jsstring \<times> 'v) list" where
  "setProperty k v [] = [(k, v)]"
| "setProperty k v ((k', v') # kvs) =
     (if k' = k then (k, v) # kvs else (k', v') # setProperty k v kvs)"

definition deleteProperty :: "jsstring \<Rightarrow> (jsstring \<times> 'v) list \<Rightarrow> (jsstring \<times> 'v) list" where
  "deleteProperty k kvs = filter (\<lambda>kv. fst kv \<noteq> k) kvs"

text \<open>\<^verbatim>\<open>lens => { lens.runtime(() => 'A') }\<close>\<close>

definition pluginA :: "(string, string, string, nat) Definer" where
  "pluginA u x = (([Runtime (\<lambda>x. (Inr ''A'', x))], None), Suc x)"

text \<open>\<^verbatim>\<open>lens => { lens.workflow(hooks => { hooks.build = { onStart: B } }) }\<close>\<close>

definition pluginB :: "(string, string, string, nat) Definer" where
  "pluginB u x =
     (([Workflow (\<lambda>hooks layout x.
          (Inr (setProperty (js ''build'') (Object [(js ''onStart'', Callback ''B'')]) hooks), x))],
       None), Suc x)"

text \<open>\<^verbatim>\<open>lens => { lens.workflow(hooks => { hooks.generate = { onStart: C } });
  lens.runtime(() => 'C') }\<close>\<close>

definition pluginC :: "(string, string, string, nat) Definer" where
  "pluginC u x =
     (([Workflow (\<lambda>hooks layout x.
          (Inr (setProperty (js ''generate'') (Object [(js ''onStart'', Callback ''C'')]) hooks), x)),
        Runtime (\<lambda>x. (Inr ''C'', x))], None), Suc x)"

text \<open>A defining function that registers a workflow definer the first time it runs only:
  \<^verbatim>\<open>lens => { if (first) lens.workflow(hooks => {}); first = false }\<close>\<close>

definition pluginOnce :: "(string, string, string, nat) Definer" where
  "pluginOnce u x =
     ((if x = 0 then [Workflow (\<lambda>hooks layout x. (Inr hooks, x))] else [], None), Suc x)"

text \<open>\<^verbatim>\<open>lens => { lens.workflow(hooks => { throw new Error('no schema') }) }\<close>\<close>

definition pluginThrowing :: "(string, string, string, nat) Definer" where
  "pluginThrowing u x =
     (([Workflow (\<lambda>hooks layout x. (Inl (js ''Error: no schema''), x))], None), x)"

text \<open>\<^verbatim>\<open>lens => { lens.workflow(hooks => { delete hooks.dev }) }\<close>\<close>

definition pluginDeleting :: "(string, string, string, nat) Definer" where
  "pluginDeleting u x =
     (([Workflow (\<lambda>hooks layout x. (Inr (deleteProperty (js ''dev'') hooks), x))], None), x)"

text \<open>
  A \<^verbatim>\<open>require\<close> that knows five packages: each of the first three calls \<^verbatim>\<open>create\<close> when it
  is loaded, the fourth exports an object without \<^verbatim>\<open>create\<close>, the fifth is
  \<^verbatim>\<open>module.exports = null\<close>.
\<close>

definition exampleRequire :: "(string, string, string, nat) require" where
  "exampleRequire depName w =
     (if depName = js ''pumpkins-plugin-a'' then
        (case create pluginA w of
           (creator, w1) \<Rightarrow> (Inr (Exports \<lparr> package_create = Function creator \<rparr>), w1))
      else if depName = js ''pumpkins-plugin-b'' then
        (case create pluginB w of
           (creator, w1) \<Rightarrow> (Inr (Exports \<lparr> package_create = Function creator \<rparr>), w1))
      else if depName = js ''pumpkins-plugin-c'' then
        (case create pluginC w of
           (creator, w1) \<Rightarrow> (Inr (Exports \<lparr> package_create = Function creator \<rparr>), w1))
      else if depName = js ''pumpkins-plugin-empty'' then
        (Inr (Exports \<lparr> package_create = NotAFunction \<rparr>), w)
      else if depName = js ''pumpkins-plugin-null'' then
        (Inr Nullish, w)
      else (Inl (js ''Error: Cannot find module''), w))"

definition exampleManifest :: json where
  "exampleManifest =
     JObject
       [(js ''name'', JString (js ''app'')),
        (js ''dependencies'',
           JObject [(js ''pumpkins-plugin-a'', JString (js ''1.0.0'')),
                    (js ''lodash'', JString (js ''4.17.15'')),
                    (js ''pumpkins-plugin-b'', JString (js ''1.0.0'')),
                    (js ''pumpkins-plugin-c'', JString (js ''1.0.0''))]),
        (js ''devDependencies'',
           JObject [(js ''pumpkins-plugin-dev'', JString (js ''1.0.0''))])]"

definition brokenManifest :: json where
  "brokenManifest =
     JObject
       [(js ''dependencies'',
           JObject [(js ''pumpkins-plugin-a'', JString (js ''1.0.0'')),
                    (js ''pumpkins-plugin-missing'', JString (js ''1.0.0'')),
                    (js ''pumpkins-plugin-b'', JString (js ''1.0.0''))])]"

definition nullManifest :: json where
  "nullManifest =
     JObject
       [(js ''dependencies'',
           JObject [(js ''pumpkins-plugin-a'', JString (js ''1.0.0'')),
                    (js ''pumpkins-plugin-null'', JString (js ''1.0.0''))])]"

section \<open>Properties\<close>

subsection \<open>The name matcher\<close>

declare decimal.simps [simp del]

lemma matchPluginPattern_prefix: "matchPluginPattern (pluginPrefix @ rest) = dotPlus rest"
  by (simp add: matchPluginPattern_def)

lemma matchPluginPattern_other:
  assumes "\<nexists>rest. s = pluginPrefix @ rest"
  shows "matchPluginPattern s = None"
proof -
  have "take (length pluginPrefix) s \<noteq> pluginPrefix"
  proof
    assume "take (length pluginPrefix) s = pluginPrefix"
    then have "s = pluginPrefix @ drop (length pluginPrefix) s"
      by (metis append_take_drop_id)
    with assms show False by blast
  qed
  then show ?thesis by (simp add: matchPluginPattern_def)
qed

lemma dotPlus_eq:
  "dotPlus rest =
     (if rest = [] \<or> lineTerminator (hd rest) then None
      else Some (takeWhile (\<lambda>c. \<not> lineTerminator c) rest))"
  by (cases rest) (simp_all add: dotPlus_def)

lemma dotPlus_clean:
  "rest \<noteq> [] \<Longrightarrow> \<forall>c\<in>set rest. \<not> lineTerminator c \<Longrightarrow> dotPlus rest = Some rest"
  by (simp add: dotPlus_def Let_def takeWhile_eq_all_conv[THEN iffD2])

lemma dotPlus_nonempty: "dotPlus rest = Some n \<Longrightarrow> n \<noteq> []"
  by (auto simp add: dotPlus_def Let_def split: if_splits)

lemma parsePluginName_match: "parsePluginName s = matchPluginPattern s"
  by (simp add: parsePluginName_def split: option.splits)

text \<open>An array index, written in decimal, starts with a digit and so never with the prefix.\<close>

lemma decimal_Cons: "\<exists>k<10. \<exists>t. decimal n = digitChar k # t"
proof (induction n rule: decimal.induct)
  case (1 n)
  show ?case
  proof (cases "n < 10")
    case True
    then show ?thesis by (auto simp add: decimal.simps[of n])
  next
    case False
    with 1 obtain k t where "k < 10" "decimal (n div 10) = digitChar k # t" by auto
    with False show ?thesis by (auto simp add: decimal.simps[of n])
  qed
qed

lemma digit_not_p: "k < 10 \<Longrightarrow> digitChar k \<noteq> of_char CHR ''p''"
proof
  assume k: "k < 10" and eq: "digitChar k = of_char CHR ''p''"
  have "unat (digitChar k) = (48 + k) mod 2 ^ 16"
    by (simp add: unat_of_nat del: of_nat_add)
  with k have "unat (digitChar k) = 48 + k" by simp
  moreover from eq have "unat (digitChar k) = 112" by (simp del: digitChar.simps)
  ultimately show False using k by simp
qed

lemma matchPluginPattern_decimal: "matchPluginPattern (decimal n) = None"
proof -
  obtain k t where k: "k < 10" and d: "decimal n = digitChar k # t"
    using decimal_Cons by blast
  have "digitChar k \<noteq> of_char CHR ''p''" using k by (rule digit_not_p)
  then show ?thesis
    unfolding d by (simp add: matchPluginPattern_def pluginPrefix_def js_def del: digitChar.simps)
qed

lemma pumpkinsPluginDepNames_parse:
  "depName \<in> set (pumpkinsPluginDepNames pkg) \<Longrightarrow> \<exists>n. parsePluginName depName = Some n"
  by (auto simp add: pumpkinsPluginDepNames_def parsePluginName_match)

subsection \<open>Unfolding the examples\<close>

lemmas example_defs =
  exampleRequire_def exampleManifest_def brokenManifest_def nullManifest_def initialWorld_def
  pluginA_def pluginB_def pluginC_def pluginOnce_def pluginThrowing_def pluginDeleting_def
  deleteProperty_def

lemmas matcher_defs =
  pumpkinsPluginDepNames_def depsOf_def parsePluginName_def matchPluginPattern_def
  pluginPrefix_def dotPlus_def lineTerminator_def js_def

lemmas load_defs =
  loadAllFromPackageJson_def loadAllFromPackageJsonSync_def doLoadAllFromPackageJson_def
  instantiatePlugin_def create_def driverCreator_def Let_def
  loadAllWorkflowPluginsFromPackageJson_def loadAllRuntimePluginsFromPackageJson_def
  loadAllRuntimePluginsFromPackageJsonSync_def doLoadAllRuntimePluginsFromPackageJson_def
  loadWorkflowComponent_def loadRuntimeComponent_def
  driver_loadWorkflowPlugin_def driver_loadRuntimePlugin_def defaultHooks_def

subsection \<open>The map that may end the process\<close>

lemma array_map_append:
  "array_map f (as @ bs) w =
     (case array_map f as w of
        (Inl d, w1) \<Rightarrow> (Inl d, w1)
      | (Inr xs, w1) \<Rightarrow>
          (case array_map f bs w1 of
             (Inl d, w2) \<Rightarrow> (Inl d, w2)
           | (Inr ys, w2) \<Rightarrow> (Inr (xs @ ys), w2)))"
  by (induction as arbitrary: w) (auto split: prod.splits sum.splits)

lemma array_map_Inl:
  "array_map f as w = (Inl d, w') \<Longrightarrow> \<exists>a\<in>set as. \<exists>wa. f a wa = (Inl d, w')"
proof (induction as arbitrary: w)
  case Nil
  then show ?case by simp
next
  case (Cons a as)
  then show ?case by (fastforce split: prod.splits sum.splits)
qed

lemma array_map_Cons_Inr:
  "array_map f (a # as) w = (Inr bs, w') \<Longrightarrow>
     \<exists>b bs' w1. bs = b # bs' \<and> f a w = (Inr b, w1) \<and> array_map f as w1 = (Inr bs', w')"
  by (auto split: prod.splits sum.splits)

lemma array_map_split:
  assumes "array_map f (before @ a # after) w = (Inr bs, w')"
  shows "\<exists>bb b ba wa wb. bs = bb @ b # ba \<and> array_map f before w = (Inr bb, wa) \<and>
           f a wa = (Inr b, wb) \<and> array_map f after wb = (Inr ba, w')"
proof -
  from assms obtain bb wa where b: "array_map f before w = (Inr bb, wa)"
    by (auto simp add: array_map_append split: prod.splits sum.splits)
  with assms obtain rest where r: "array_map f (a # after) wa = (Inr rest, w')" "bs = bb @ rest"
    by (auto simp add: array_map_append split: prod.splits sum.splits)
  from array_map_Cons_Inr[OF r(1)] b r(2) show ?thesis by blast
qed

subsection \<open>Loading\<close>

lemma doLoadAllFromPackageJson_Some:
  "doLoadAllFromPackageJson require (Some pkg) w =
     array_map (instantiatePlugin require) (pumpkinsPluginDepNames pkg) w"
  by (simp add: doLoadAllFromPackageJson_def pumpkinsPluginDepNames_def Let_def)

lemma doLoad_no_entries:
  "objectKeys (depsOf pkg) = [] \<Longrightarrow> doLoadAllFromPackageJson require (Some pkg) w = (Inr [], w)"
  by (simp add: doLoadAllFromPackageJson_def)

lemma depsOf_missing: "dependenciesOf pkg = None \<Longrightarrow> depsOf pkg = JObject []"
  by (simp add: depsOf_def)

lemma doLoad_lodash:
  "doLoadAllFromPackageJson require
     (Some (JObject [(js ''dependencies'', JObject [(js ''lodash'', version)])])) w = (Inr [], w)"
proof -
  have "depsOf (JObject [(js ''dependencies'', JObject [(js ''lodash'', version)])]) =
          JObject [(js ''lodash'', version)]"
    by (simp add: depsOf_def)
  then have "pumpkinsPluginDepNames (JObject [(js ''dependencies'', JObject [(js ''lodash'', version)])]) = []"
    by (simp add: pumpkinsPluginDepNames_def matchPluginPattern_def pluginPrefix_def js_def)
  then show ?thesis
    by (simp add: doLoadAllFromPackageJson_Some)
qed

lemma instantiatePlugin_failure:
  assumes n: "parsePluginName depName = Some n"
    and failure:
      "(\<exists>e w1. require depName w0 = (Inl e, w1)) \<or>
       (\<exists>p w1. require depName w0 = (Inr (Exports p), w1) \<and>
          (package_create p = NotAFunction \<or>
           (\<exists>creator e w2. package_create p = Function creator \<and>
              creator n w1 = (Inl e, w2))))"
  shows "\<exists>d w'. instantiatePlugin require depName w0 = (Inl (Fatal d), w') \<and>
           diagnosticPlugin d = n"
  using failure n by (auto simp add: instantiatePlugin_def)

lemma instantiatePlugin_names:
  "instantiatePlugin require depName wa = (Inl (Fatal d), wb) \<Longrightarrow>
     parsePluginName depName = Some n \<Longrightarrow> diagnosticPlugin d = n"
  by (auto simp add: instantiatePlugin_def
      split: prod.splits sum.splits export.splits exports.splits)

lemma instantiatePlugin_TypeError:
  "instantiatePlugin require depName wa = (Inl TypeError, wb) \<longleftrightarrow>
     require depName wa = (Inr Nullish, wb)"
  by (auto simp add: instantiatePlugin_def Let_def
      split: prod.splits sum.splits export.splits exports.splits)

lemma aggregate_nothing:
  assumes "doLoadAllFromPackageJson require packageJson w = (Inr [], w)"
  shows "loadAllFromPackageJson require packageJson w = (Inr [], w) \<and>
         loadAllFromPackageJsonSync require packageJson w = (Inr [], w) \<and>
         loadAllWorkflowPluginsFromPackageJson require packageJson layout w = (Inr [], w) \<and>
         loadAllRuntimePluginsFromPackageJson require packageJson w = (Inr [], w) \<and>
         loadAllRuntimePluginsFromPackageJsonSync require packageJson w = (Inr [], w)"
  using assms
  by (simp add: loadAllFromPackageJson_def loadAllFromPackageJsonSync_def
      loadAllWorkflowPluginsFromPackageJson_def loadAllRuntimePluginsFromPackageJson_def
      loadAllRuntimePluginsFromPackageJsonSync_def doLoadAllRuntimePluginsFromPackageJson_def)

lemma loadWorkflowComponent_Inr:
  "loadWorkflowComponent layout driver wa = (Inr h, wb) \<Longrightarrow>
     loadWorkflowPlugin driver layout wa = (Inr h, wb)"
  by (cases "loadWorkflowPlugin driver layout wa"; cases "fst (loadWorkflowPlugin driver layout wa)")
     (simp_all add: loadWorkflowComponent_def)

lemma loadRuntimeComponent_Inr:
  "loadRuntimeComponent driver wa = (Inr r, wb) \<Longrightarrow> loadRuntimePlugin driver wa = (Inr r, wb)"
  by (cases "loadRuntimePlugin driver wa"; cases "fst (loadRuntimePlugin driver wa)")
     (simp_all add: loadRuntimeComponent_def)

text \<open>Calls made in turn: the map returns a list exactly when every call returned, each
  made in the state the one before left.\<close>

lemma in_turn_Nil: "in_turn f [] w bs w' \<longleftrightarrow> bs = [] \<and> w' = w"
proof
  assume "in_turn f [] w bs w'"
  then show "bs = [] \<and> w' = w" by (auto simp add: in_turn_def)
next
  assume "bs = [] \<and> w' = w"
  then show "in_turn f [] w bs w'"
    unfolding in_turn_def by (intro exI[of _ "[w]"]) simp
qed

lemma in_turn_Cons:
  "in_turn f (a # as) w bs w' \<longleftrightarrow>
     (\<exists>b bs' w1. bs = b # bs' \<and> f a w = (Inr b, w1) \<and> in_turn f as w1 bs' w')"
proof
  assume "in_turn f (a # as) w bs w'"
  then obtain ws where len: "length ws = Suc (Suc (length as))"
    and lenb: "length bs = Suc (length as)"
    and first: "ws ! 0 = w" and last: "ws ! Suc (length as) = w'"
    and step: "\<forall>i<Suc (length as). f ((a # as) ! i) (ws ! i) = (Inr (bs ! i), ws ! Suc i)"
    unfolding in_turn_def by auto
  from len obtain v ws' where ws: "ws = v # ws'" and len': "length ws' = Suc (length as)"
    by (auto simp add: length_Suc_conv)
  from lenb obtain b bs' where bs: "bs = b # bs'" and lenb': "length bs' = length as"
    by (auto simp add: length_Suc_conv)
  from step[rule_format, of 0] first ws bs have head: "f a w = (Inr b, ws' ! 0)" by simp
  have rest: "\<forall>i<length as. f (as ! i) (ws' ! i) = (Inr (bs' ! i), ws' ! Suc i)"
  proof (intro allI impI)
    fix i assume "i < length as"
    with step[rule_format, of "Suc i"] ws bs
    show "f (as ! i) (ws' ! i) = (Inr (bs' ! i), ws' ! Suc i)" by simp
  qed
  from last ws have "ws' ! length as = w'" by simp
  with len' lenb' rest have "in_turn f as (ws' ! 0) bs' w'"
    unfolding in_turn_def by blast
  with bs head show "\<exists>b bs' w1. bs = b # bs' \<and> f a w = (Inr b, w1) \<and> in_turn f as w1 bs' w'"
    by blast
next
  assume "\<exists>b bs' w1. bs = b # bs' \<and> f a w = (Inr b, w1) \<and> in_turn f as w1 bs' w'"
  then obtain b bs' w1 ws where bs: "bs = b # bs'" and head: "f a w = (Inr b, w1)"
    and len: "length ws = Suc (length as)" and lenb: "length bs' = length as"
    and first: "ws ! 0 = w1" and last: "ws ! length as = w'"
    and step: "\<forall>i<length as. f (as ! i) (ws ! i) = (Inr (bs' ! i), ws ! Suc i)"
    unfolding in_turn_def by blast
  have "\<forall>i<length (a # as).
          f ((a # as) ! i) ((w # ws) ! i) = (Inr ((b # bs') ! i), (w # ws) ! Suc i)"
  proof (intro allI impI)
    fix i assume i: "i < length (a # as)"
    show "f ((a # as) ! i) ((w # ws) ! i) = (Inr ((b # bs') ! i), (w # ws) ! Suc i)"
    proof (cases i)
      case 0
      with head first show ?thesis by simp
    next
      case (Suc j)
      with i step show ?thesis by simp
    qed
  qed
  with len lenb last bs show "in_turn f (a # as) w bs w'"
    unfolding in_turn_def by (intro exI[of _ "w # ws"]) simp
qed

lemma array_map_in_turn: "array_map f as w = (Inr bs, w') \<longleftrightarrow> in_turn f as w bs w'"
proof (induction as arbitrary: w bs)
  case Nil
  show ?case by (auto simp add: in_turn_Nil)
next
  case (Cons a as)
  show ?case
  proof (cases "f a w")
    case (Pair r w1)
    show ?thesis
    proof (cases r)
      case (Inl e)
      with Pair show ?thesis by (simp add: in_turn_Cons)
    next
      case (Inr b)
      with Pair Cons.IH[of w1] show ?thesis
        by (cases "array_map f as w1"; cases "fst (array_map f as w1)")
           (auto simp add: in_turn_Cons)
    qed
  qed
qed

lemma in_turn_cong:
  assumes "\<And>a v b v'. f a v = (Inr b, v') \<longleftrightarrow> g a v = (Inr b, v')"
  shows "in_turn f as w bs w' \<longleftrightarrow> in_turn g as w bs w'"
  unfolding in_turn_def using assms by simp

lemma workflow_components_in_turn:
  "array_map (loadWorkflowComponent layout) drivers w1 = (Inr hooks, w2) \<longleftrightarrow>
     in_turn (\<lambda>driver. loadWorkflowPlugin driver layout) drivers w1 hooks w2"
proof -
  have "\<And>driver v h v'. loadWorkflowComponent layout driver v = (Inr h, v') \<longleftrightarrow>
          loadWorkflowPlugin driver layout v = (Inr h, v')"
    by (auto simp add: loadWorkflowComponent_def split: prod.splits sum.splits)
  then have "in_turn (loadWorkflowComponent layout) drivers w1 hooks w2 \<longleftrightarrow>
          in_turn (\<lambda>driver. loadWorkflowPlugin driver layout) drivers w1 hooks w2"
    by (rule in_turn_cong)
  then show ?thesis by (simp add: array_map_in_turn)
qed

lemma runtime_components_in_turn:
  "array_map loadRuntimeComponent drivers w1 = (Inr rs, w2) \<longleftrightarrow>
     in_turn loadRuntimePlugin drivers w1 rs w2"
proof -
  have "\<And>driver v r v'. loadRuntimeComponent driver v = (Inr r, v') \<longleftrightarrow>
          loadRuntimePlugin driver v = (Inr r, v')"
    by (auto simp add: loadRuntimeComponent_def split: prod.splits sum.splits)
  then have "in_turn loadRuntimeComponent drivers w1 rs w2 \<longleftrightarrow>
          in_turn loadRuntimePlugin drivers w1 rs w2"
    by (rule in_turn_cong)
  then show ?thesis by (simp add: array_map_in_turn)
qed

lemma workflow_aggregation_in_turn:
  "loadAllWorkflowPluginsFromPackageJson require packageJson layout w = (Inr hooks, w2) \<longleftrightarrow>
     (\<exists>plugins w1. doLoadAllFromPackageJson require packageJson w = (Inr plugins, w1) \<and>
        in_turn (\<lambda>driver. loadWorkflowPlugin driver layout)
          (filter extendsWorkflow plugins) w1 hooks w2)"
proof (cases "doLoadAllFromPackageJson require packageJson w")
  case (Pair r w1)
  show ?thesis
  proof (cases r)
    case (Inl e)
    with Pair show ?thesis
      by (simp add: loadAllWorkflowPluginsFromPackageJson_def loadAllFromPackageJson_def)
  next
    case (Inr plugins)
    with Pair show ?thesis
      by (simp add: loadAllWorkflowPluginsFromPackageJson_def loadAllFromPackageJson_def
          workflow_components_in_turn)
  qed
qed

lemma runtime_aggregation_in_turn:
  "loadAllRuntimePluginsFromPackageJson require packageJson w = (Inr rs, w2) \<longleftrightarrow>
     (\<exists>plugins w1. doLoadAllFromPackageJson require packageJson w = (Inr plugins, w1) \<and>
        in_turn loadRuntimePlugin (filter extendsRuntime plugins) w1 rs w2)"
proof (cases "doLoadAllFromPackageJson require packageJson w")
  case (Pair r w1)
  show ?thesis
  proof (cases r)
    case (Inl e)
    with Pair show ?thesis
      by (simp add: loadAllRuntimePluginsFromPackageJson_def loadAllFromPackageJson_def)
  next
    case (Inr plugins)
    with Pair show ?thesis
      by (simp add: loadAllRuntimePluginsFromPackageJson_def loadAllFromPackageJson_def
          doLoadAllRuntimePluginsFromPackageJson_def runtime_components_in_turn)
  qed
qed

subsection \<open>The shared variables of a Driver Creator\<close>

lemma register_definer: "definer (foldl register cl calls) = definer cl"
proof (induction calls arbitrary: cl)
  case Nil
  show ?case by simp
next
  case (Cons c calls)
  then show ?case by (cases c) simp_all
qed

lemma register_workflow:
  "maybeWorkflowPlugin (foldl register cl calls) \<noteq> None \<longleftrightarrow>
     maybeWorkflowPlugin cl \<noteq> None \<or> (\<exists>f. Workflow f \<in> set calls)"
proof (induction calls arbitrary: cl)
  case Nil
  show ?case by simp
next
  case (Cons c calls)
  then show ?case by (cases c) auto
qed

lemma register_runtime:
  "maybeRuntimePlugin (foldl register cl calls) \<noteq> None \<longleftrightarrow>
     maybeRuntimePlugin cl \<noteq> None \<or> (\<exists>f. Runtime f \<in> set calls)"
proof (induction calls arbitrary: cl)
  case Nil
  show ?case by simp
next
  case (Cons c calls)
  then show ?case by (cases c) auto
qed

lemma create_eq:
  "create d w0 = (creator, w1) \<Longrightarrow>
     creator = driverCreator (next_closure w0) \<and>
     next_closure w1 = Suc (next_closure w0) \<and>
     closures w1 (next_closure w0) =
       \<lparr> definer = d, maybeWorkflowPlugin = None, maybeRuntimePlugin = None \<rparr> \<and>
     external w1 = external w0"
  by (auto simp add: create_def Let_def)

lemma driverCreator_world:
  "driverCreator ref pluginName w = (result, w') \<Longrightarrow>
     next_closure w' = next_closure w \<and>
     (\<forall>r. r \<noteq> ref \<longrightarrow> closures w' r = closures w r) \<and>
     (\<exists>calls thrown.
        definer (closures w ref) \<lparr> debug = js ''plugin:'' @ pluginName \<rparr> (external w) =
          ((calls, thrown), external w') \<and>
        closures w' ref = foldl register (closures w ref) calls)"
  by (auto simp add: driverCreator_def Let_def split: prod.splits option.splits)

lemma driverCreator_driver:
  "driverCreator ref pluginName w = (Inr driver, w') \<Longrightarrow>
     name driver = pluginName \<and>
     extendsWorkflow driver = (maybeWorkflowPlugin (closures w' ref) \<noteq> None) \<and>
     extendsRuntime driver = (maybeRuntimePlugin (closures w' ref) \<noteq> None) \<and>
     loadWorkflowPlugin driver = driver_loadWorkflowPlugin ref \<and>
     loadRuntimePlugin driver = driver_loadRuntimePlugin ref"
  by (auto simp add: driverCreator_def Let_def split: prod.splits option.splits)


text \<open>A scope that was allocated keeps its address and its \<^verbatim>\<open>definer\<close>.\<close>

lemma reaches_scope:
  assumes "reaches w1 w" and "ref < next_closure w1"
  shows "ref < next_closure w \<and> definer (closures w ref) = definer (closures w1 ref)"
  using assms
proof (induction rule: reaches.induct)
  case (reaches_refl w)
  then show ?case by simp
next
  case (reaches_create w w1 d creator w2)
  then show ?case by (auto simp add: create_def Let_def)
next
  case (reaches_apply w w1 r pluginName result w2)
  from driverCreator_world[OF reaches_apply.hyps(2)] reaches_apply.IH reaches_apply.prems
  show ?case by (cases "r = ref") (auto simp add: register_definer)
next
  case (reaches_external w w1 x)
  then show ?case by simp
qed

text \<open>If the defining function never calls \<^verbatim>\<open>lens.workflow\<close>, the variable stays unset.\<close>

lemma reaches_no_workflow:
  assumes "reaches w1 w" and "ref < next_closure w1"
    and "\<forall>u x. \<forall>f. Workflow f \<notin> set (fst (fst (definer (closures w1 ref) u x)))"
    and "maybeWorkflowPlugin (closures w1 ref) = None"
  shows "maybeWorkflowPlugin (closures w ref) = None"
  using assms
proof (induction rule: reaches.induct)
  case (reaches_refl w)
  then show ?case by simp
next
  case (reaches_create w w1 d creator w2)
  from reaches_scope[OF reaches_create.hyps(1) reaches_create.prems(1)] reaches_create
  show ?case by (auto simp add: create_def Let_def)
next
  case (reaches_apply w w1 r pluginName result w2)
  have IH: "maybeWorkflowPlugin (closures w1 ref) = None"
    using reaches_apply by blast
  have sc: "definer (closures w1 ref) = definer (closures w ref)"
    using reaches_scope[OF reaches_apply.hyps(1) reaches_apply.prems(1)] by simp
  from driverCreator_world[OF reaches_apply.hyps(2)] obtain calls thrown where
    other: "\<forall>r'. r' \<noteq> r \<longrightarrow> closures w2 r' = closures w1 r'" and
    run: "definer (closures w1 r) \<lparr> debug = js ''plugin:'' @ pluginName \<rparr> (external w1) =
          ((calls, thrown), external w2)" and
    upd: "closures w2 r = foldl register (closures w1 r) calls"
    by blast
  show ?case
  proof (cases "r = ref")
    case True
    with run sc reaches_apply.prems(2) have "\<forall>f. Workflow f \<notin> set calls"
      by (metis fst_conv)
    with register_workflow[of "closures w1 ref" calls] IH upd True show ?thesis by auto
  next
    case False
    with other IH show ?thesis by simp
  qed
next
  case (reaches_external w w1 x)
  then show ?case by simp
qed

text \<open>A variable that was assigned is never unset again.\<close>

lemma reaches_runtime_set:
  assumes "reaches w1 w" and "ref < next_closure w1"
    and "maybeRuntimePlugin (closures w1 ref) \<noteq> None"
  shows "maybeRuntimePlugin (closures w ref) \<noteq> None"
  using assms
proof (induction rule: reaches.induct)
  case (reaches_refl w)
  then show ?case by simp
next
  case (reaches_create w w1 d creator w2)
  from reaches_scope[OF reaches_create.hyps(1) reaches_create.prems(1)] reaches_create
  show ?case by (auto simp add: create_def Let_def)
next
  case (reaches_apply w w1 r pluginName result w2)
  have IH: "maybeRuntimePlugin (closures w1 ref) \<noteq> None"
    using reaches_apply by blast
  from driverCreator_world[OF reaches_apply.hyps(2)] obtain calls where
    other: "\<forall>r'. r' \<noteq> r \<longrightarrow> closures w2 r' = closures w1 r'" and
    upd: "closures w2 r = foldl register (closures w1 r) calls"
    by blast
  show ?case
  proof (cases "r = ref")
    case True
    with register_runtime[of "closures w1 ref" calls] IH upd show ?thesis by metis
  next
    case False
    with other IH show ?thesis by simp
  qed
next
  case (reaches_external w w1 x)
  then show ?case by simp
qed

subsection \<open>The loaders of a Driver\<close>

lemma driver_loadWorkflowPlugin_pure:
  assumes "\<forall>f. maybeWorkflowPlugin (closures v ref) = Some f \<longrightarrow>
             (\<exists>g. \<forall>hooks l x. f hooks l x = (g hooks l, x))"
  shows "snd (driver_loadWorkflowPlugin ref layout v) = v"
proof (cases "maybeWorkflowPlugin (closures v ref)")
  case None
  then show ?thesis by (simp add: driver_loadWorkflowPlugin_def)
next
  case (Some f)
  with assms obtain g where "\<forall>hooks l x. f hooks l x = (g hooks l, x)" by blast
  with Some show ?thesis
    by (cases "g defaultHooks layout") (simp_all add: driver_loadWorkflowPlugin_def)
qed

lemma driver_loadRuntimePlugin_pure:
  assumes "\<forall>f. maybeRuntimePlugin (closures v ref) = Some f \<longrightarrow> (\<exists>c. \<forall>x. f x = (c, x))"
  shows "snd (driver_loadRuntimePlugin ref v) = v"
proof (cases "maybeRuntimePlugin (closures v ref)")
  case None
  then show ?thesis by (simp add: driver_loadRuntimePlugin_def)
next
  case (Some f)
  with assms obtain c where "\<forall>x. f x = (c, x)" by blast
  with Some show ?thesis
    by (cases c) (simp_all add: driver_loadRuntimePlugin_def)
qed

lemma driver_loadRuntimePlugin_result:
  "(maybeRuntimePlugin (closures v ref) = None \<longrightarrow> driver_loadRuntimePlugin ref v = (Inr None, v)) \<and>
   (\<forall>f c x. maybeRuntimePlugin (closures v ref) = Some f \<longrightarrow> f (external v) = (Inr c, x) \<longrightarrow>
      driver_loadRuntimePlugin ref v = (Inr (Some c), v\<lparr> external := x \<rparr>)) \<and>
   (\<forall>f e x. maybeRuntimePlugin (closures v ref) = Some f \<longrightarrow> f (external v) = (Inl e, x) \<longrightarrow>
      driver_loadRuntimePlugin ref v = (Inl e, v\<lparr> external := x \<rparr>))"
  by (auto simp add: driver_loadRuntimePlugin_def)

lemma loadRuntimePlugin_absent:
  assumes "create d w0 = (creator, w1)" and "creator pluginName w = (Inr driver, w')"
  shows "(\<forall>v. maybeRuntimePlugin (closures v (next_closure w0)) = None \<longrightarrow>
            loadRuntimePlugin driver v = (Inr None, v)) \<and>
         (\<not> extendsRuntime driver \<longrightarrow> loadRuntimePlugin driver w' = (Inr None, w'))"
proof -
  from create_eq[OF assms(1)] have c: "creator = driverCreator (next_closure w0)" by simp
  from driverCreator_driver[OF assms(2)[unfolded c]] driver_loadRuntimePlugin_result
  show ?thesis by metis
qed
section \<open>The claims\<close>

subsection \<open>C1: a failing plugin ends the whole load\<close>

text \<open>
  What holds of every matched dependency \<open>depName\<close>, at any position of the manifest
  (\<open>before\<close> and \<open>after\<close> are arbitrary): suppose that whenever the plugins declared before it
  have been loaded and its turn comes, resolving its module throws, or the module is an
  object whose \<^verbatim>\<open>create\<close> is not a function, or invoking the creation capability throws.
  Then no entry point returns a list, and all end alike. When the turn of \<open>depName\<close> comes,
  the end is \<^verbatim>\<open>fatal\<close> with a diagnostic that names it; otherwise a plugin declared before it
  ended the load first, by \<^verbatim>\<open>fatal\<close> with a diagnostic naming that plugin or by the uncaught
  \<^verbatim>\<open>TypeError\<close> of a module that is \<^verbatim>\<open>null\<close> or \<^verbatim>\<open>undefined\<close>.
\<close>

lemma load_ends_on_plugin_failure:
  assumes matched: "pumpkinsPluginDepNames pkg = before @ depName # after"
    and failure:
      "\<forall>drivers w0. array_map (instantiatePlugin require) before w = (Inr drivers, w0) \<longrightarrow>
         (\<exists>e w1. require depName w0 = (Inl e, w1)) \<or>
         (\<exists>p w1. require depName w0 = (Inr (Exports p), w1) \<and>
            (package_create p = NotAFunction \<or>
             (\<exists>creator n e w2. package_create p = Function creator \<and>
                parsePluginName depName = Some n \<and> creator n w1 = (Inl e, w2))))"
  shows "\<exists>e w'. doLoadAllFromPackageJson require (Some pkg) w = (Inl e, w') \<and>
           loadAllFromPackageJson require (Some pkg) w = (Inl e, w') \<and>
           loadAllFromPackageJsonSync require (Some pkg) w = (Inl e, w') \<and>
           (\<forall>layout. loadAllWorkflowPluginsFromPackageJson require (Some pkg) layout w = (Inl e, w')) \<and>
           loadAllRuntimePluginsFromPackageJson require (Some pkg) w = (Inl e, w') \<and>
           loadAllRuntimePluginsFromPackageJsonSync require (Some pkg) w = (Inl e, w') \<and>
           (e = TypeError \<or>
            (\<exists>d. e = Fatal d \<and>
               (\<exists>failed\<in>set (before @ [depName]).
                  parsePluginName failed = Some (diagnosticPlugin d)))) \<and>
           ((\<exists>drivers w0. array_map (instantiatePlugin require) before w = (Inr drivers, w0)) \<longrightarrow>
              (\<exists>d. e = Fatal d \<and> parsePluginName depName = Some (diagnosticPlugin d)))"
proof -
  have names: "\<And>k. k \<in> set (before @ [depName]) \<Longrightarrow> \<exists>n. parsePluginName k = Some n"
    using pumpkinsPluginDepNames_parse[of _ pkg] by (auto simp add: matched)
  obtain r w0 where run: "array_map (instantiatePlugin require) before w = (r, w0)"
    by (cases "array_map (instantiatePlugin require) before w")
  have "\<exists>e w'. doLoadAllFromPackageJson require (Some pkg) w = (Inl e, w') \<and>
          (e = TypeError \<or>
            (\<exists>d. e = Fatal d \<and>
               (\<exists>failed\<in>set (before @ [depName]).
                  parsePluginName failed = Some (diagnosticPlugin d)))) \<and>
          ((\<exists>drivers w0. array_map (instantiatePlugin require) before w = (Inr drivers, w0)) \<longrightarrow>
              (\<exists>d. e = Fatal d \<and> parsePluginName depName = Some (diagnosticPlugin d)))"
  proof (cases r)
    case (Inl e)
    with run have early: "array_map (instantiatePlugin require) before w = (Inl e, w0)" by simp
    have load: "doLoadAllFromPackageJson require (Some pkg) w = (Inl e, w0)"
      using early by (simp add: doLoadAllFromPackageJson_Some matched array_map_append)
    have "e = TypeError \<or>
            (\<exists>d. e = Fatal d \<and>
               (\<exists>failed\<in>set (before @ [depName]).
                  parsePluginName failed = Some (diagnosticPlugin d)))"
    proof (cases e)
      case TypeError
      then show ?thesis by simp
    next
      case (Fatal d)
      from array_map_Inl[OF early] Fatal obtain k wa where
        k: "k \<in> set before" "instantiatePlugin require k wa = (Inl (Fatal d), w0)" by blast
      from names[of k] k(1) obtain n where n: "parsePluginName k = Some n" by auto
      from instantiatePlugin_names[OF k(2) n] n
      have "parsePluginName k = Some (diagnosticPlugin d)" by simp
      with k(1) Fatal show ?thesis by auto
    qed
    with load early show ?thesis by auto
  next
    case (Inr drivers)
    with run have reached: "array_map (instantiatePlugin require) before w = (Inr drivers, w0)"
      by simp
    from names[of depName] obtain n where n: "parsePluginName depName = Some n" by auto
    from failure reached n have
      "(\<exists>e w1. require depName w0 = (Inl e, w1)) \<or>
       (\<exists>p w1. require depName w0 = (Inr (Exports p), w1) \<and>
          (package_create p = NotAFunction \<or>
           (\<exists>creator e w2. package_create p = Function creator \<and> creator n w1 = (Inl e, w2))))"
      by fastforce
    from instantiatePlugin_failure[where require=require and depName=depName and n=n, OF n this]
    obtain d w' where d: "instantiatePlugin require depName w0 = (Inl (Fatal d), w')"
      "diagnosticPlugin d = n"
      by blast
    have "doLoadAllFromPackageJson require (Some pkg) w = (Inl (Fatal d), w')"
      by (simp add: doLoadAllFromPackageJson_Some matched array_map_append reached d)
    with n d(2) show ?thesis by auto
  qed
  then obtain e w' where
    load: "doLoadAllFromPackageJson require (Some pkg) w = (Inl e, w')" and
    who: "e = TypeError \<or>
            (\<exists>d. e = Fatal d \<and>
               (\<exists>failed\<in>set (before @ [depName]).
                  parsePluginName failed = Some (diagnosticPlugin d)))" and
    this_one: "(\<exists>drivers w0. array_map (instantiatePlugin require) before w = (Inr drivers, w0)) \<longrightarrow>
              (\<exists>d. e = Fatal d \<and> parsePluginName depName = Some (diagnosticPlugin d))"
    by blast
  from load have
    "loadAllFromPackageJson require (Some pkg) w = (Inl e, w') \<and>
     loadAllFromPackageJsonSync require (Some pkg) w = (Inl e, w') \<and>
     (\<forall>layout. loadAllWorkflowPluginsFromPackageJson require (Some pkg) layout w = (Inl e, w')) \<and>
     loadAllRuntimePluginsFromPackageJson require (Some pkg) w = (Inl e, w') \<and>
     loadAllRuntimePluginsFromPackageJsonSync require (Some pkg) w = (Inl e, w')"
    by (simp add: loadAllFromPackageJson_def loadAllFromPackageJsonSync_def
          loadAllWorkflowPluginsFromPackageJson_def loadAllRuntimePluginsFromPackageJson_def
          loadAllRuntimePluginsFromPackageJsonSync_def)
  with load who this_one show ?thesis by blast
qed

text \<open>
  An instance: the manifest declares \<^verbatim>\<open>pumpkins-plugin-a\<close>, \<^verbatim>\<open>pumpkins-plugin-missing\<close> and
  \<^verbatim>\<open>pumpkins-plugin-b\<close>; the first loads, the second is not installed. The load ends with a
  diagnostic that names \<^verbatim>\<open>missing\<close>.
\<close>

lemma load_ends_on_plugin_failure_example:
  "\<exists>d w'. doLoadAllFromPackageJson exampleRequire (Some brokenManifest) initialWorld =
             (Inl (Fatal d), w') \<and>
           loadAllRuntimePluginsFromPackageJsonSync exampleRequire (Some brokenManifest) initialWorld =
             (Inl (Fatal d), w') \<and>
           (\<forall>layout. loadAllWorkflowPluginsFromPackageJson exampleRequire (Some brokenManifest)
                       layout initialWorld = (Inl (Fatal d), w')) \<and>
           diagnosticPlugin d = js ''missing''"
proof -
  have matched: "pumpkinsPluginDepNames brokenManifest =
      [js ''pumpkins-plugin-a''] @ js ''pumpkins-plugin-missing'' # [js ''pumpkins-plugin-b'']"
    by (simp add: example_defs matcher_defs)
  have reached: "\<exists>drivers w0.
      array_map (instantiatePlugin exampleRequire) [js ''pumpkins-plugin-a''] initialWorld =
        (Inr drivers, w0)"
    by (simp add: example_defs matcher_defs load_defs)
  have failure: "\<forall>drivers w0.
       array_map (instantiatePlugin exampleRequire) [js ''pumpkins-plugin-a''] initialWorld =
         (Inr drivers, w0) \<longrightarrow>
       (\<exists>e w1. exampleRequire (js ''pumpkins-plugin-missing'') w0 = (Inl e, w1)) \<or>
       (\<exists>p w1. exampleRequire (js ''pumpkins-plugin-missing'') w0 = (Inr (Exports p), w1) \<and>
          (package_create p = NotAFunction \<or>
           (\<exists>creator n e w2. package_create p = Function creator \<and>
              parsePluginName (js ''pumpkins-plugin-missing'') = Some n \<and>
              creator n w1 = (Inl e, w2))))"
    by (simp add: exampleRequire_def js_def)
  have name: "parsePluginName (js ''pumpkins-plugin-missing'') = Some (js ''missing'')"
    by (simp add: matcher_defs)
  from load_ends_on_plugin_failure[where require=exampleRequire and pkg=brokenManifest
      and before="[js ''pumpkins-plugin-a'']" and depName="js ''pumpkins-plugin-missing''"
      and after="[js ''pumpkins-plugin-b'']" and w=initialWorld, OF matched failure]
  obtain e w' where
    "doLoadAllFromPackageJson exampleRequire (Some brokenManifest) initialWorld = (Inl e, w')"
    "loadAllRuntimePluginsFromPackageJsonSync exampleRequire (Some brokenManifest) initialWorld =
       (Inl e, w')"
    "\<forall>layout. loadAllWorkflowPluginsFromPackageJson exampleRequire (Some brokenManifest)
                layout initialWorld = (Inl e, w')"
    "(\<exists>drivers w0. array_map (instantiatePlugin exampleRequire) [js ''pumpkins-plugin-a'']
                      initialWorld = (Inr drivers, w0)) \<longrightarrow>
       (\<exists>d. e = Fatal d \<and>
          parsePluginName (js ''pumpkins-plugin-missing'') = Some (diagnosticPlugin d))"
    by blast
  with reached name show ?thesis by auto
qed

text \<open>
  C1 fails on the code for a matched dependency whose module is \<^verbatim>\<open>null\<close>: a module whose
  \<^verbatim>\<open>create\<close> export is not a function, since it has none. The manifest declares
  \<^verbatim>\<open>pumpkins-plugin-a\<close> and \<^verbatim>\<open>pumpkins-plugin-null\<close>, both matched; the first loads, the
  second is \<^verbatim>\<open>module.exports = null\<close>. No entry point returns a list, but none ends by
  \<^verbatim>\<open>fatal\<close>: each ends with the \<^verbatim>\<open>TypeError\<close> that reading \<^verbatim>\<open>SomePlugin.create\<close> throws, and
  no diagnostic names the plugin \<^verbatim>\<open>null\<close>.
\<close>

theorem load_null_module_uncaught:
  "pumpkinsPluginDepNames nullManifest = [js ''pumpkins-plugin-a'', js ''pumpkins-plugin-null''] \<and>
   parsePluginName (js ''pumpkins-plugin-null'') = Some (js ''null'') \<and>
   (\<exists>w'. exampleRequire (js ''pumpkins-plugin-null'') w' = (Inr Nullish, w') \<and>
      doLoadAllFromPackageJson exampleRequire (Some nullManifest) initialWorld = (Inl TypeError, w') \<and>
      loadAllFromPackageJson exampleRequire (Some nullManifest) initialWorld = (Inl TypeError, w') \<and>
      loadAllFromPackageJsonSync exampleRequire (Some nullManifest) initialWorld =
        (Inl TypeError, w') \<and>
      loadAllWorkflowPluginsFromPackageJson exampleRequire (Some nullManifest) ''/app'' initialWorld =
        (Inl TypeError, w') \<and>
      loadAllRuntimePluginsFromPackageJson exampleRequire (Some nullManifest) initialWorld =
        (Inl TypeError, w') \<and>
      loadAllRuntimePluginsFromPackageJsonSync exampleRequire (Some nullManifest) initialWorld =
        (Inl TypeError, w'))"
proof -
  have names: "pumpkinsPluginDepNames nullManifest =
      [js ''pumpkins-plugin-a'', js ''pumpkins-plugin-null'']"
    by (simp add: example_defs matcher_defs)
  have name: "parsePluginName (js ''pumpkins-plugin-null'') = Some (js ''null'')"
    by (simp add: matcher_defs)
  have "\<exists>w'. exampleRequire (js ''pumpkins-plugin-null'') w' = (Inr Nullish, w') \<and>
          doLoadAllFromPackageJson exampleRequire (Some nullManifest) initialWorld =
            (Inl TypeError, w')"
    by (simp add: doLoadAllFromPackageJson_Some names)
       (simp add: example_defs matcher_defs load_defs)
  then obtain w' where
    null: "exampleRequire (js ''pumpkins-plugin-null'') w' = (Inr Nullish, w')" and
    load: "doLoadAllFromPackageJson exampleRequire (Some nullManifest) initialWorld =
            (Inl TypeError, w')"
    by blast
  from load have
    "loadAllFromPackageJson exampleRequire (Some nullManifest) initialWorld = (Inl TypeError, w') \<and>
     loadAllFromPackageJsonSync exampleRequire (Some nullManifest) initialWorld =
       (Inl TypeError, w') \<and>
     loadAllWorkflowPluginsFromPackageJson exampleRequire (Some nullManifest) ''/app'' initialWorld =
       (Inl TypeError, w') \<and>
     loadAllRuntimePluginsFromPackageJson exampleRequire (Some nullManifest) initialWorld =
       (Inl TypeError, w') \<and>
     loadAllRuntimePluginsFromPackageJsonSync exampleRequire (Some nullManifest) initialWorld =
       (Inl TypeError, w')"
    by (simp add: loadAllFromPackageJson_def loadAllFromPackageJsonSync_def
          loadAllWorkflowPluginsFromPackageJson_def loadAllRuntimePluginsFromPackageJson_def
          loadAllRuntimePluginsFromPackageJsonSync_def)
  with names name null load show ?thesis by blast
qed

subsection \<open>C2: the name matcher\<close>

text \<open>
  The claim as the spec states it fails where a line terminator follows the prefix: the
  \<^verbatim>\<open>.\<close> of the pattern does not match one, so the name stops before it, and an identifier
  whose first code unit after the prefix is a line terminator does not match at all. A key
  of a JSON object can hold each of the four: LF and CR as the escapes \<^verbatim>\<open>\n\<close> and \<^verbatim>\<open>\r\<close>,
  U+2028 and U+2029 also as they are.
\<close>

theorem parsePluginName_line_terminator_counterexample:
  "parsePluginName (pluginPrefix @ js ''a'' @ [0x000A] @ js ''b'') = Some (js ''a'') \<and>
   parsePluginName (pluginPrefix @ js ''a'' @ [0x000A] @ js ''b'') \<noteq>
     Some (js ''a'' @ [0x000A] @ js ''b'') \<and>
   parsePluginName (pluginPrefix @ [0x000A] @ js ''b'') = None \<and>
   parsePluginName (pluginPrefix @ js ''a'' @ [0x2028] @ js ''b'') = Some (js ''a'') \<and>
   parsePluginName (pluginPrefix @ [0x2029] @ js ''b'') = None \<and>
   parsePluginName (pluginPrefix @ [0x000D]) = None"
  by (simp add: matcher_defs)

text \<open>
  C2, amended. \<^verbatim>\<open>parsePluginName\<close> is a total function of the identifier alone. On the prefix
  \<^verbatim>\<open>pumpkins-plugin-\<close> followed by \<open>rest\<close> it returns the code units of \<open>rest\<close> up to its first
  line terminator (LF, CR, U+2028 or U+2029), unless \<open>rest\<close> is empty or starts with a line
  terminator, where it returns the no-match sentinel; so it returns all of a non-empty
  \<open>rest\<close> that holds no line terminator. It returns the sentinel on every identifier that
  does not start with the prefix. A name it returns is never empty; the prefix alone is
  rejected; \<^verbatim>\<open>lodash\<close> is rejected. The matched set of a manifest is exactly the dependency
  names the matcher accepts, and a manifest whose only dependency is \<^verbatim>\<open>lodash\<close> loads as the
  empty list, not as an error.
\<close>

theorem parsePluginName_spec:
  "(\<forall>rest. parsePluginName (pluginPrefix @ rest) =
      (if rest = [] \<or> lineTerminator (hd rest) then None
       else Some (takeWhile (\<lambda>c. \<not> lineTerminator c) rest))) \<and>
   (\<forall>rest. rest \<noteq> [] \<longrightarrow> (\<forall>c\<in>set rest. \<not> lineTerminator c) \<longrightarrow>
      parsePluginName (pluginPrefix @ rest) = Some rest) \<and>
   (\<forall>c. lineTerminator c \<longleftrightarrow> c \<in> {0x000A, 0x000D, 0x2028, 0x2029}) \<and>
   (\<forall>s. (\<nexists>rest. s = pluginPrefix @ rest) \<longrightarrow> parsePluginName s = None) \<and>
   (\<forall>s n. parsePluginName s = Some n \<longrightarrow> n \<noteq> []) \<and>
   parsePluginName pluginPrefix = None \<and>
   parsePluginName (js ''lodash'') = None \<and>
   (\<forall>pkg s. s \<in> set (pumpkinsPluginDepNames pkg) \<longleftrightarrow>
      s \<in> set (objectKeys (depsOf pkg)) \<and> parsePluginName s \<noteq> None) \<and>
   (\<forall>require version w.
      doLoadAllFromPackageJson require
        (Some (JObject [(js ''dependencies'', JObject [(js ''lodash'', version)])])) w =
        (Inr [], w))"
proof -
  have a: "\<forall>rest. parsePluginName (pluginPrefix @ rest) =
      (if rest = [] \<or> lineTerminator (hd rest) then None
       else Some (takeWhile (\<lambda>c. \<not> lineTerminator c) rest))"
    by (simp add: parsePluginName_match matchPluginPattern_prefix dotPlus_eq)
  have b: "\<forall>rest. rest \<noteq> [] \<longrightarrow> (\<forall>c\<in>set rest. \<not> lineTerminator c) \<longrightarrow>
      parsePluginName (pluginPrefix @ rest) = Some rest"
    by (simp add: parsePluginName_match matchPluginPattern_prefix dotPlus_clean)
  have t: "\<forall>c. lineTerminator c \<longleftrightarrow> c \<in> {0x000A, 0x000D, 0x2028, 0x2029}"
    by (simp add: lineTerminator_def)
  have c: "\<forall>s. (\<nexists>rest. s = pluginPrefix @ rest) \<longrightarrow> parsePluginName s = None"
    using matchPluginPattern_other by (simp add: parsePluginName_match)
  have d: "\<forall>s n. parsePluginName s = Some n \<longrightarrow> n \<noteq> []"
    by (auto simp add: parsePluginName_match matchPluginPattern_def dest: dotPlus_nonempty
        split: if_splits)
  have e: "parsePluginName pluginPrefix = None"
    using a[rule_format, of "[]"] by simp
  have f: "parsePluginName (js ''lodash'') = None"
    by (simp add: parsePluginName_match matchPluginPattern_def pluginPrefix_def js_def)
  have g: "\<forall>pkg s. s \<in> set (pumpkinsPluginDepNames pkg) \<longleftrightarrow>
      s \<in> set (objectKeys (depsOf pkg)) \<and> parsePluginName s \<noteq> None"
    by (simp add: pumpkinsPluginDepNames_def parsePluginName_match)
  have h: "\<forall>require version w.
      doLoadAllFromPackageJson require
        (Some (JObject [(js ''dependencies'', JObject [(js ''lodash'', version)])])) w =
        (Inr [], w)"
    by (simp add: doLoad_lodash)
  from a b t c d e f g h show ?thesis by blast
qed

text \<open>An instance: \<^verbatim>\<open>pumpkins-plugin-auth\<close> gives \<^verbatim>\<open>auth\<close>; \<^verbatim>\<open>lodash\<close> and the bare prefix are
  rejected.\<close>

theorem parsePluginName_spec_witness:
  "parsePluginName (js ''pumpkins-plugin-auth'') = Some (js ''auth'') \<and>
   parsePluginName (js ''lodash'') = None \<and>
   parsePluginName (js ''pumpkins-plugin-'') = None"
proof -
  have ne: "js ''auth'' \<noteq> []" by (simp add: js_def)
  have clean: "\<forall>c\<in>set (js ''auth''). \<not> lineTerminator c"
    by (simp add: lineTerminator_def js_def)
  have other: "\<nexists>rest. js ''lodash'' = pluginPrefix @ rest"
    by (simp add: pluginPrefix_def js_def)
  note spec = parsePluginName_spec[where 'a = unit and 'b = unit and 'c = unit and 'd = unit]
  from spec have "\<forall>rest. rest \<noteq> [] \<longrightarrow> (\<forall>c\<in>set rest. \<not> lineTerminator c) \<longrightarrow>
      parsePluginName (pluginPrefix @ rest) = Some rest" by blast
  with ne clean have 1: "parsePluginName (pluginPrefix @ js ''auth'') = Some (js ''auth'')"
    by blast
  from spec have "\<forall>s. (\<nexists>rest. s = pluginPrefix @ rest) \<longrightarrow> parsePluginName s = None" by blast
  with other have 2: "parsePluginName (js ''lodash'') = None" by blast
  from spec have 3: "parsePluginName pluginPrefix = None" by blast
  from 1 2 3 show ?thesis by (simp add: pluginPrefix_def js_def)
qed

subsection \<open>C3: the record that loadWorkflowPlugin returns\<close>

text \<open>
  The claim as the spec states it fails in two ways. The loader hands the default record
  to the registered workflow definer and returns the same object, so a definer that removes
  a property removes it from the result: after \<^verbatim>\<open>delete hooks.dev\<close> the record has the keys
  \<^verbatim>\<open>create\<close>, \<^verbatim>\<open>build\<close> and \<^verbatim>\<open>generate\<close> only. And \<^verbatim>\<open>loadWorkflowPlugin\<close> has no \<^verbatim>\<open>try\<close>, so for a
  Driver whose workflow definer throws the call returns no record (the aggregation wraps
  the call in a \<^verbatim>\<open>try\<close> for that reason).
\<close>

theorem loadWorkflowPlugin_result_counterexample:
  "(\<exists>creator w1 driver w2 hooks.
      create pluginDeleting initialWorld = (creator, w1) \<and>
      creator (js ''d'') w1 = (Inr driver, w2) \<and>
      loadWorkflowPlugin driver ''/app'' w2 = (Inr hooks, w2) \<and>
      map fst hooks = [js ''create'', js ''build'', js ''generate''] \<and>
      map_of hooks (js ''dev'') = None \<and>
      \<not> hasPhaseKeys hooks) \<and>
   (\<exists>creator w1 driver w2.
      create pluginThrowing initialWorld = (creator, w1) \<and>
      creator (js ''t'') w1 = (Inr driver, w2) \<and>
      loadWorkflowPlugin driver ''/app'' w2 = (Inl (js ''Error: no schema''), w2))"
  by (simp add: example_defs load_defs hasPhaseKeys_def js_def)

text \<open>
  C3, amended. For every Driver that a function returned by \<^verbatim>\<open>create\<close> produced, every
  layout and every state \<open>v\<close> of the store: when no workflow definer is registered,
  \<^verbatim>\<open>loadWorkflowPlugin(layout)\<close> returns exactly the untouched default record, which has the
  four phase keys and \<^verbatim>\<open>dev.addToSettings\<close>; when one is registered and it returns, the
  loader returns the record as the definer left the default record, so a record the loader
  returns lacks one of the four keys or \<^verbatim>\<open>dev.addToSettings\<close> only if the registered definer
  left it so; when the registered definer throws, the loader throws the same value and
  returns no record. In particular a Driver with \<^verbatim>\<open>extendsWorkflow === false\<close> returns the
  default record right after its creation.
\<close>

theorem loadWorkflowPlugin_result:
  fixes d :: "('f, 'l, 'c, 'x) Definer"
  assumes "create d w0 = (creator, w1)" and "creator pluginName w = (Inr driver, w')"
  shows "(maybeWorkflowPlugin (closures v (next_closure w0)) = None \<longrightarrow>
            loadWorkflowPlugin driver layout v = (Inr defaultHooks, v)) \<and>
         hasPhaseKeys (defaultHooks :: 'f WorkflowHooks) \<and>
         map fst (defaultHooks :: 'f WorkflowHooks) =
           [js ''create'', js ''dev'', js ''build'', js ''generate''] \<and>
         (\<forall>f hooks x. maybeWorkflowPlugin (closures v (next_closure w0)) = Some f \<longrightarrow>
            f defaultHooks layout (external v) = (Inr hooks, x) \<longrightarrow>
            loadWorkflowPlugin driver layout v = (Inr hooks, v\<lparr> external := x \<rparr>)) \<and>
         (\<forall>hooks v'. loadWorkflowPlugin driver layout v = (Inr hooks, v') \<longrightarrow>
            \<not> hasPhaseKeys hooks \<longrightarrow>
            (\<exists>f x. maybeWorkflowPlugin (closures v (next_closure w0)) = Some f \<and>
               f defaultHooks layout (external v) = (Inr hooks, x))) \<and>
         (\<forall>f e x. maybeWorkflowPlugin (closures v (next_closure w0)) = Some f \<longrightarrow>
            f defaultHooks layout (external v) = (Inl e, x) \<longrightarrow>
            loadWorkflowPlugin driver layout v = (Inl e, v\<lparr> external := x \<rparr>)) \<and>
         (\<not> extendsWorkflow driver \<longrightarrow>
            loadWorkflowPlugin driver layout w' = (Inr defaultHooks, w'))"
proof -
  let ?slot = "maybeWorkflowPlugin (closures v (next_closure w0))"
  from create_eq[OF assms(1)] have c: "creator = driverCreator (next_closure w0)" by simp
  note dr = driverCreator_driver[OF assms(2)[unfolded c]]
  have keys: "hasPhaseKeys (defaultHooks :: 'f WorkflowHooks)"
    by (simp add: hasPhaseKeys_def defaultHooks_def js_def)
  have names: "map fst (defaultHooks :: 'f WorkflowHooks) =
           [js ''create'', js ''dev'', js ''build'', js ''generate'']"
    by (simp add: defaultHooks_def)
  have none: "?slot = None \<longrightarrow> loadWorkflowPlugin driver layout v = (Inr defaultHooks, v)"
    using dr by (simp add: driver_loadWorkflowPlugin_def Let_def)
  have returns: "\<forall>f hooks x. ?slot = Some f \<longrightarrow>
            f defaultHooks layout (external v) = (Inr hooks, x) \<longrightarrow>
            loadWorkflowPlugin driver layout v = (Inr hooks, v\<lparr> external := x \<rparr>)"
    using dr by (simp add: driver_loadWorkflowPlugin_def Let_def)
  have throws: "\<forall>f e x. ?slot = Some f \<longrightarrow>
            f defaultHooks layout (external v) = (Inl e, x) \<longrightarrow>
            loadWorkflowPlugin driver layout v = (Inl e, v\<lparr> external := x \<rparr>)"
    using dr by (simp add: driver_loadWorkflowPlugin_def Let_def)
  have lacks: "\<forall>hooks v'. loadWorkflowPlugin driver layout v = (Inr hooks, v') \<longrightarrow>
            \<not> hasPhaseKeys hooks \<longrightarrow>
            (\<exists>f x. ?slot = Some f \<and> f defaultHooks layout (external v) = (Inr hooks, x))"
  proof (intro allI impI)
    fix hooks v'
    assume r: "loadWorkflowPlugin driver layout v = (Inr hooks, v')" and k: "\<not> hasPhaseKeys hooks"
    show "\<exists>f x. ?slot = Some f \<and> f defaultHooks layout (external v) = (Inr hooks, x)"
    proof (cases ?slot)
      case None
      with none r keys k show ?thesis by simp
    next
      case (Some f)
      obtain res x where f: "f defaultHooks layout (external v) = (res, x)"
        by (cases "f defaultHooks layout (external v)")
      show ?thesis
      proof (cases res)
        case (Inl e)
        with throws Some f r show ?thesis by simp
      next
        case (Inr hooks')
        with returns Some f r show ?thesis by simp
      qed
    qed
  qed
  have fresh: "\<not> extendsWorkflow driver \<longrightarrow>
            loadWorkflowPlugin driver layout w' = (Inr defaultHooks, w')"
    using dr by (simp add: driver_loadWorkflowPlugin_def Let_def)
  from none keys names returns lacks throws fresh show ?thesis by blast
qed

text \<open>
  Two instances: the Driver of the plugin that registers a runtime producer only returns
  the default record; the Driver of the plugin whose workflow definer assigns
  \<^verbatim>\<open>hooks.build\<close> returns the default record with that property replaced, and all four keys.
\<close>

theorem loadWorkflowPlugin_result_witness:
  "(\<exists>creator w1 driver w'.
      create pluginA initialWorld = (creator, w1) \<and>
      creator (js ''a'') w1 = (Inr driver, w') \<and>
      \<not> extendsWorkflow driver \<and>
      loadWorkflowPlugin driver ''/app'' w' = (Inr defaultHooks, w')) \<and>
   (\<exists>creator w1 driver w'.
      create pluginB initialWorld = (creator, w1) \<and>
      creator (js ''b'') w1 = (Inr driver, w') \<and>
      loadWorkflowPlugin driver ''/app'' w' =
        (Inr [(js ''create'', Object []),
              (js ''dev'', Object [(js ''addToSettings'', Object [])]),
              (js ''build'', Object [(js ''onStart'', Callback ''B'')]),
              (js ''generate'', Object [])], w'))"
proof
  obtain creator w1 where c: "create pluginA initialWorld = (creator, w1)"
    by (cases "create pluginA initialWorld")
  have "\<exists>driver w'. creator (js ''a'') w1 = (Inr driver, w') \<and> \<not> extendsWorkflow driver"
    using c by (auto simp add: example_defs load_defs)
  then obtain driver w' where a: "creator (js ''a'') w1 = (Inr driver, w')"
    and e: "\<not> extendsWorkflow driver"
    by blast
  from loadWorkflowPlugin_result[OF c a, of w' "''/app''"] e
  have "loadWorkflowPlugin driver ''/app'' w' = (Inr defaultHooks, w')" by blast
  with c a e show "\<exists>creator w1 driver w'.
      create pluginA initialWorld = (creator, w1) \<and>
      creator (js ''a'') w1 = (Inr driver, w') \<and>
      \<not> extendsWorkflow driver \<and>
      loadWorkflowPlugin driver ''/app'' w' = (Inr defaultHooks, w')" by blast
next
  let ?definer = "\<lambda>(hooks :: string WorkflowHooks) (layout :: string) (x :: nat).
       (Inr (setProperty (js ''build'') (Object [(js ''onStart'', Callback ''B'')]) hooks) ::
          exn + string WorkflowHooks, x)"
  let ?result = "[(js ''create'', Object []),
              (js ''dev'', Object [(js ''addToSettings'', Object [])]),
              (js ''build'', Object [(js ''onStart'', Callback ''B'')]),
              (js ''generate'', Object [])] :: string WorkflowHooks"
  obtain creator w1 where c: "create pluginB initialWorld = (creator, w1)"
    by (cases "create pluginB initialWorld")
  have "\<exists>driver w'. creator (js ''b'') w1 = (Inr driver, w') \<and>
          maybeWorkflowPlugin (closures w' (next_closure initialWorld)) = Some ?definer"
    using c by (auto simp add: example_defs load_defs)
  then obtain driver w' where a: "creator (js ''b'') w1 = (Inr driver, w')"
    and f: "maybeWorkflowPlugin (closures w' (next_closure initialWorld)) = Some ?definer"
    by blast
  have run: "?definer defaultHooks ''/app'' (external w') = (Inr ?result, external w')"
    by (simp add: defaultHooks_def js_def)
  from loadWorkflowPlugin_result[OF c a, of w' "''/app''"]
  have "\<forall>f hooks x. maybeWorkflowPlugin (closures w' (next_closure initialWorld)) = Some f \<longrightarrow>
            f defaultHooks ''/app'' (external w') = (Inr hooks, x) \<longrightarrow>
            loadWorkflowPlugin driver ''/app'' w' = (Inr hooks, w'\<lparr> external := x \<rparr>)"
    by blast
  with f run have "loadWorkflowPlugin driver ''/app'' w' =
      (Inr ?result, w'\<lparr> external := external w' \<rparr>)"
    by blast
  with c a show "\<exists>creator w1 driver w'.
      create pluginB initialWorld = (creator, w1) \<and>
      creator (js ''b'') w1 = (Inr driver, w') \<and>
      loadWorkflowPlugin driver ''/app'' w' = (Inr ?result, w')"
    by auto
qed

subsection \<open>C4: a plugin that extends the runtime only\<close>

text \<open>
  C4. Let \<^verbatim>\<open>create(d)\<close> have returned \<open>creator\<close>, where the defining function \<open>d\<close>, whenever it
  runs, registers a runtime producer and no workflow definer, and let \<open>creator\<close> produce
  \<open>driver\<close> at any later time. Then \<^verbatim>\<open>extendsWorkflow\<close> is false and \<^verbatim>\<open>extendsRuntime\<close> is true.
  Wherever the Driver stands in a list of Drivers, the workflow aggregation of the list is
  that of the list without it, so none of its elements comes from this Driver; the runtime
  aggregation, when it returns, holds at the Driver's position what its
  \<^verbatim>\<open>loadRuntimePlugin()\<close> returned at its turn, and from the creation on that is the
  contributions of the registered producer, never the absent value. Symmetrically, for
  every Driver that a function returned by \<^verbatim>\<open>create\<close> produced, \<^verbatim>\<open>loadRuntimePlugin()\<close> returns
  the absent value while no runtime producer is registered.
\<close>

theorem runtime_only_plugin:
  fixes d :: "('f, 'l, 'c, 'x) Definer"
  assumes "create d w0 = (creator, w1)" and "reaches w1 w"
    and "\<forall>u x. (\<exists>f. Runtime f \<in> set (fst (fst (d u x)))) \<and>
                (\<forall>f. Workflow f \<notin> set (fst (fst (d u x))))"
    and "creator pluginName w = (Inr driver, w')"
  shows "extendsWorkflow driver = False \<and> extendsRuntime driver = True \<and>
         (\<forall>layout before after v.
            array_map (loadWorkflowComponent layout)
              (filter extendsWorkflow (before @ driver # after)) v =
            array_map (loadWorkflowComponent layout)
              (filter extendsWorkflow (before @ after)) v) \<and>
         (\<forall>before after v rs v'.
            doLoadAllRuntimePluginsFromPackageJson (before @ driver # after) v = (Inr rs, v') \<longrightarrow>
              (\<exists>rb r ra va vb.
                 rs = rb @ r # ra \<and>
                 doLoadAllRuntimePluginsFromPackageJson before v = (Inr rb, va) \<and>
                 loadRuntimePlugin driver va = (Inr r, vb) \<and>
                 doLoadAllRuntimePluginsFromPackageJson after vb = (Inr ra, v'))) \<and>
         (\<forall>v. reaches w' v \<longrightarrow>
            (\<exists>f. maybeRuntimePlugin (closures v (next_closure w0)) = Some f \<and>
               (\<forall>c x. f (external v) = (Inr c, x) \<longrightarrow>
                  loadRuntimePlugin driver v = (Inr (Some c), v\<lparr> external := x \<rparr>)))) \<and>
         (\<forall>(d2 :: ('f, 'l, 'c, 'x) Definer) v0 creator2 v1 pluginName2 v2 driver2 v3.
            create d2 v0 = (creator2, v1) \<longrightarrow> creator2 pluginName2 v2 = (Inr driver2, v3) \<longrightarrow>
              (\<forall>v. maybeRuntimePlugin (closures v (next_closure v0)) = None \<longrightarrow>
                 loadRuntimePlugin driver2 v = (Inr None, v)) \<and>
              (\<not> extendsRuntime driver2 \<longrightarrow> loadRuntimePlugin driver2 v3 = (Inr None, v3)))"
proof -
  let ?ref = "next_closure w0"
  from create_eq[OF assms(1)] have c: "creator = driverCreator ?ref"
    and n: "?ref < next_closure w1"
    and cl: "closures w1 ?ref =
      \<lparr> definer = d, maybeWorkflowPlugin = None, maybeRuntimePlugin = None \<rparr>"
    by simp_all
  from reaches_scope[OF assms(2) n] cl have d: "definer (closures w ?ref) = d"
    and n': "?ref < next_closure w" by simp_all
  have app: "driverCreator ?ref pluginName w = (Inr driver, w')" using assms(4) c by simp
  have step: "reaches w1 w'" using assms(2) app by (rule reaches_apply)
  have "maybeWorkflowPlugin (closures w' ?ref) = None"
    using step n _ _
  proof (rule reaches_no_workflow)
    show "\<forall>u x f. Workflow f \<notin> set (fst (fst (definer (closures w1 ?ref) u x)))"
      using assms(3) cl by simp
    show "maybeWorkflowPlugin (closures w1 ?ref) = None" using cl by simp
  qed
  with driverCreator_driver[OF app] have ew: "extendsWorkflow driver = False" by simp
  from driverCreator_world[OF app] d obtain calls thrown where
    run: "d \<lparr> debug = js ''plugin:'' @ pluginName \<rparr> (external w) = ((calls, thrown), external w')"
    and upd: "closures w' ?ref = foldl register (closures w ?ref) calls"
    and n'': "next_closure w' = next_closure w"
    by auto
  from assms(3) run have "\<exists>f. Runtime f \<in> set calls" by (metis fst_conv)
  with register_runtime[of "closures w ?ref" calls] upd
  have set': "maybeRuntimePlugin (closures w' ?ref) \<noteq> None" by simp
  with driverCreator_driver[OF app] have er: "extendsRuntime driver = True" by simp
  have lr: "loadRuntimePlugin driver = driver_loadRuntimePlugin ?ref"
    using driverCreator_driver[OF app] by simp
  have later: "\<forall>v. reaches w' v \<longrightarrow>
            (\<exists>f. maybeRuntimePlugin (closures v ?ref) = Some f \<and>
               (\<forall>c x. f (external v) = (Inr c, x) \<longrightarrow>
                  loadRuntimePlugin driver v = (Inr (Some c), v\<lparr> external := x \<rparr>)))"
  proof (intro allI impI)
    fix v assume "reaches w' v"
    from reaches_runtime_set[OF this _ set'] n' n''
    obtain f where f: "maybeRuntimePlugin (closures v ?ref) = Some f" by auto
    with driver_loadRuntimePlugin_result[of v ?ref] lr
    show "\<exists>f. maybeRuntimePlugin (closures v ?ref) = Some f \<and>
               (\<forall>c x. f (external v) = (Inr c, x) \<longrightarrow>
                  loadRuntimePlugin driver v = (Inr (Some c), v\<lparr> external := x \<rparr>))"
      by auto
  qed
  have split: "\<forall>before after v rs v'.
            doLoadAllRuntimePluginsFromPackageJson (before @ driver # after) v = (Inr rs, v') \<longrightarrow>
              (\<exists>rb r ra va vb.
                 rs = rb @ r # ra \<and>
                 doLoadAllRuntimePluginsFromPackageJson before v = (Inr rb, va) \<and>
                 loadRuntimePlugin driver va = (Inr r, vb) \<and>
                 doLoadAllRuntimePluginsFromPackageJson after vb = (Inr ra, v'))"
  proof (intro allI impI)
    fix before after v rs v'
    assume "doLoadAllRuntimePluginsFromPackageJson (before @ driver # after) v = (Inr rs, v')"
    then have "array_map loadRuntimeComponent
                 (filter extendsRuntime before @ driver # filter extendsRuntime after) v =
               (Inr rs, v')"
      using er by (simp add: doLoadAllRuntimePluginsFromPackageJson_def)
    from array_map_split[OF this] obtain rb r ra va vb where
      "rs = rb @ r # ra"
      "array_map loadRuntimeComponent (filter extendsRuntime before) v = (Inr rb, va)"
      "loadRuntimeComponent driver va = (Inr r, vb)"
      "array_map loadRuntimeComponent (filter extendsRuntime after) vb = (Inr ra, v')"
      by blast
    moreover from this(3) have "loadRuntimePlugin driver va = (Inr r, vb)"
      by (rule loadRuntimeComponent_Inr)
    ultimately show "\<exists>rb r ra va vb.
                 rs = rb @ r # ra \<and>
                 doLoadAllRuntimePluginsFromPackageJson before v = (Inr rb, va) \<and>
                 loadRuntimePlugin driver va = (Inr r, vb) \<and>
                 doLoadAllRuntimePluginsFromPackageJson after vb = (Inr ra, v')"
      by (auto simp add: doLoadAllRuntimePluginsFromPackageJson_def)
  qed
  have absent: "\<forall>(d2 :: ('f, 'l, 'c, 'x) Definer) v0 creator2 v1 pluginName2 v2 driver2 v3.
            create d2 v0 = (creator2, v1) \<longrightarrow> creator2 pluginName2 v2 = (Inr driver2, v3) \<longrightarrow>
              (\<forall>v. maybeRuntimePlugin (closures v (next_closure v0)) = None \<longrightarrow>
                 loadRuntimePlugin driver2 v = (Inr None, v)) \<and>
              (\<not> extendsRuntime driver2 \<longrightarrow> loadRuntimePlugin driver2 v3 = (Inr None, v3))"
    using loadRuntimePlugin_absent by blast
  show ?thesis using ew er later split absent by simp
qed

text \<open>
  An instance: the plugin a registers the producer of \<^verbatim>\<open>'A'\<close> only. In the manifest that
  declares a, b and c, the workflow list holds the records of b and c, and the runtime list
  the contributions of a and c.
\<close>

theorem runtime_only_plugin_witness:
  "(\<exists>creator w1 driver w'.
      create pluginA initialWorld = (creator, w1) \<and>
      creator (js ''a'') w1 = (Inr driver, w') \<and>
      extendsWorkflow driver = False \<and> extendsRuntime driver = True \<and>
      loadRuntimePlugin driver w' = (Inr (Some ''A''), w')) \<and>
   fst (loadAllWorkflowPluginsFromPackageJson exampleRequire (Some exampleManifest) ''/app''
          initialWorld) =
     Inr [[(js ''create'', Object []),
           (js ''dev'', Object [(js ''addToSettings'', Object [])]),
           (js ''build'', Object [(js ''onStart'', Callback ''B'')]),
           (js ''generate'', Object [])],
          [(js ''create'', Object []),
           (js ''dev'', Object [(js ''addToSettings'', Object [])]),
           (js ''build'', Object []),
           (js ''generate'', Object [(js ''onStart'', Callback ''C'')])]] \<and>
   fst (loadAllRuntimePluginsFromPackageJson exampleRequire (Some exampleManifest) initialWorld) =
     Inr [Some ''A'', Some ''C'']"
proof -
  have names: "pumpkinsPluginDepNames exampleManifest =
     [js ''pumpkins-plugin-a'', js ''pumpkins-plugin-b'', js ''pumpkins-plugin-c'']"
    by (simp add: example_defs matcher_defs)
  have workflow: "fst (loadAllWorkflowPluginsFromPackageJson exampleRequire (Some exampleManifest)
          ''/app'' initialWorld) =
     Inr [[(js ''create'', Object []),
           (js ''dev'', Object [(js ''addToSettings'', Object [])]),
           (js ''build'', Object [(js ''onStart'', Callback ''B'')]),
           (js ''generate'', Object [])],
          [(js ''create'', Object []),
           (js ''dev'', Object [(js ''addToSettings'', Object [])]),
           (js ''build'', Object []),
           (js ''generate'', Object [(js ''onStart'', Callback ''C'')])]]"
    by (simp add: loadAllWorkflowPluginsFromPackageJson_def loadAllFromPackageJson_def
          doLoadAllFromPackageJson_Some names)
       (simp add: example_defs matcher_defs load_defs)
  have runtime: "fst (loadAllRuntimePluginsFromPackageJson exampleRequire (Some exampleManifest)
          initialWorld) = Inr [Some ''A'', Some ''C'']"
    by (simp add: loadAllRuntimePluginsFromPackageJson_def loadAllFromPackageJson_def
          doLoadAllFromPackageJson_Some names)
       (simp add: example_defs matcher_defs load_defs)
  obtain creator w1 where c: "create pluginA initialWorld = (creator, w1)"
    by (cases "create pluginA initialWorld")
  have r: "reaches w1 w1" by (rule reaches_refl)
  have only: "\<forall>u x. (\<exists>f. Runtime f \<in> set (fst (fst (pluginA u x)))) \<and>
                (\<forall>f. Workflow f \<notin> set (fst (fst (pluginA u x))))"
    by (simp add: pluginA_def)
  have "\<exists>driver w'. creator (js ''a'') w1 = (Inr driver, w') \<and>
          maybeRuntimePlugin (closures w' (next_closure initialWorld)) = Some (\<lambda>x. (Inr ''A'', x))"
    using c by (auto simp add: example_defs load_defs)
  then obtain driver w' where a: "creator (js ''a'') w1 = (Inr driver, w')"
    and f: "maybeRuntimePlugin (closures w' (next_closure initialWorld)) =
              Some (\<lambda>x. (Inr ''A'', x))"
    by blast
  note inst = runtime_only_plugin[OF c r only a]
  from inst have flags: "extendsWorkflow driver = False \<and> extendsRuntime driver = True" by blast
  from inst have "\<forall>v. reaches w' v \<longrightarrow>
            (\<exists>f. maybeRuntimePlugin (closures v (next_closure initialWorld)) = Some f \<and>
               (\<forall>c x. f (external v) = (Inr c, x) \<longrightarrow>
                  loadRuntimePlugin driver v = (Inr (Some c), v\<lparr> external := x \<rparr>)))"
    by blast
  with reaches_refl[of w'] f
  have "loadRuntimePlugin driver w' = (Inr (Some ''A''), w'\<lparr> external := external w' \<rparr>)"
    by auto
  with c a flags have "\<exists>creator w1 driver w'.
      create pluginA initialWorld = (creator, w1) \<and>
      creator (js ''a'') w1 = (Inr driver, w') \<and>
      extendsWorkflow driver = False \<and> extendsRuntime driver = True \<and>
      loadRuntimePlugin driver w' = (Inr (Some ''A''), w')"
    by auto
  with workflow runtime show ?thesis by blast
qed

subsection \<open>C5: aggregation keeps the order of the manifest\<close>

text \<open>
  C5. The matched identifiers are the dependency names the matcher accepts, in the order the
  manifest declares them. The load returns a list exactly when the matched identifiers,
  instantiated in turn from the first to the last, each in the state the one before left,
  all gave a Driver; the i-th Driver of the list is then the one the i-th matched
  identifier was instantiated to. The workflow aggregation returns a list exactly when the
  load returned and the workflow loaders of its Drivers with \<^verbatim>\<open>extendsWorkflow\<close>, called in
  turn in the order of the load, starting in the state the load left, all returned; the
  i-th record of the list is what the loader of the i-th of these Drivers returned at its
  turn. The same holds for the runtime aggregation, in both its forms, and the runtime
  loaders of the Drivers with \<^verbatim>\<open>extendsRuntime\<close>.
\<close>

theorem aggregation_preserves_manifest_order:
  "pumpkinsPluginDepNames pkg =
     filter (\<lambda>depName. parsePluginName depName \<noteq> None) (objectKeys (depsOf pkg)) \<and>
   (\<forall>plugins w1. doLoadAllFromPackageJson require (Some pkg) w = (Inr plugins, w1) \<longleftrightarrow>
      in_turn (instantiatePlugin require) (pumpkinsPluginDepNames pkg) w plugins w1) \<and>
   (\<forall>hooks w2.
      loadAllWorkflowPluginsFromPackageJson require (Some pkg) layout w = (Inr hooks, w2) \<longleftrightarrow>
      (\<exists>plugins w1. doLoadAllFromPackageJson require (Some pkg) w = (Inr plugins, w1) \<and>
         in_turn (\<lambda>driver. loadWorkflowPlugin driver layout)
           (filter extendsWorkflow plugins) w1 hooks w2)) \<and>
   (\<forall>rs w2. loadAllRuntimePluginsFromPackageJson require (Some pkg) w = (Inr rs, w2) \<longleftrightarrow>
      (\<exists>plugins w1. doLoadAllFromPackageJson require (Some pkg) w = (Inr plugins, w1) \<and>
         in_turn loadRuntimePlugin (filter extendsRuntime plugins) w1 rs w2)) \<and>
   (\<forall>rs w2. loadAllRuntimePluginsFromPackageJsonSync require (Some pkg) w = (Inr rs, w2) \<longleftrightarrow>
      (\<exists>plugins w1. doLoadAllFromPackageJson require (Some pkg) w = (Inr plugins, w1) \<and>
         in_turn loadRuntimePlugin (filter extendsRuntime plugins) w1 rs w2)) \<and>
   (\<forall>f as v bs v'. in_turn f as v bs v' \<longrightarrow>
      length bs = length as \<and>
      (\<exists>vs. length vs = Suc (length as) \<and> vs ! 0 = v \<and> vs ! length as = v' \<and>
         (\<forall>i<length as. f (as ! i) (vs ! i) = (Inr (bs ! i) :: exn + 'r, vs ! Suc i))))"
proof -
  have names: "pumpkinsPluginDepNames pkg =
     filter (\<lambda>depName. parsePluginName depName \<noteq> None) (objectKeys (depsOf pkg))"
    by (simp add: pumpkinsPluginDepNames_def parsePluginName_match)
  have drivers: "\<forall>plugins w1. doLoadAllFromPackageJson require (Some pkg) w = (Inr plugins, w1) \<longleftrightarrow>
      in_turn (instantiatePlugin require) (pumpkinsPluginDepNames pkg) w plugins w1"
    by (simp add: doLoadAllFromPackageJson_Some array_map_in_turn)
  have workflow: "\<forall>hooks w2.
      loadAllWorkflowPluginsFromPackageJson require (Some pkg) layout w = (Inr hooks, w2) \<longleftrightarrow>
      (\<exists>plugins w1. doLoadAllFromPackageJson require (Some pkg) w = (Inr plugins, w1) \<and>
         in_turn (\<lambda>driver. loadWorkflowPlugin driver layout)
           (filter extendsWorkflow plugins) w1 hooks w2)"
    by (simp add: workflow_aggregation_in_turn)
  have runtime: "\<forall>rs w2. loadAllRuntimePluginsFromPackageJson require (Some pkg) w = (Inr rs, w2) \<longleftrightarrow>
      (\<exists>plugins w1. doLoadAllFromPackageJson require (Some pkg) w = (Inr plugins, w1) \<and>
         in_turn loadRuntimePlugin (filter extendsRuntime plugins) w1 rs w2)"
    by (simp add: runtime_aggregation_in_turn)
  have runtimeSync: "\<forall>rs w2.
      loadAllRuntimePluginsFromPackageJsonSync require (Some pkg) w = (Inr rs, w2) \<longleftrightarrow>
      (\<exists>plugins w1. doLoadAllFromPackageJson require (Some pkg) w = (Inr plugins, w1) \<and>
         in_turn loadRuntimePlugin (filter extendsRuntime plugins) w1 rs w2)"
  proof -
    have "loadAllRuntimePluginsFromPackageJsonSync require (Some pkg) w =
            loadAllRuntimePluginsFromPackageJson require (Some pkg) w"
      by (simp add: loadAllRuntimePluginsFromPackageJsonSync_def
            loadAllRuntimePluginsFromPackageJson_def loadAllFromPackageJsonSync_def
            loadAllFromPackageJson_def)
    then show ?thesis by (simp add: runtime_aggregation_in_turn)
  qed
  have turn: "\<forall>f as v bs v'. in_turn f as v bs v' \<longrightarrow>
      length bs = length as \<and>
      (\<exists>vs. length vs = Suc (length as) \<and> vs ! 0 = v \<and> vs ! length as = v' \<and>
         (\<forall>i<length as. f (as ! i) (vs ! i) = (Inr (bs ! i) :: exn + 'r, vs ! Suc i)))"
    unfolding in_turn_def by blast
  show ?thesis
    by (intro conjI) (rule names drivers workflow runtime runtimeSync turn)+
qed

text \<open>
  An instance, the one of the spec: the manifest declares the plugins a, b and c, of which
  a and c extend the runtime. The runtime list is the contributions of a, then those of c:
  the loader of a returned \<^verbatim>\<open>'A'\<close> in the state the load left, the loader of c returned
  \<^verbatim>\<open>'C'\<close> in the state the loader of a left.
\<close>

theorem aggregation_preserves_manifest_order_witness:
  "pumpkinsPluginDepNames exampleManifest =
     [js ''pumpkins-plugin-a'', js ''pumpkins-plugin-b'', js ''pumpkins-plugin-c''] \<and>
   (\<exists>plugins w1 w2 a c.
      doLoadAllFromPackageJson exampleRequire (Some exampleManifest) initialWorld =
        (Inr plugins, w1) \<and>
      map name plugins = [js ''a'', js ''b'', js ''c''] \<and>
      filter extendsRuntime plugins = [a, c] \<and> name a = js ''a'' \<and> name c = js ''c'' \<and>
      loadAllRuntimePluginsFromPackageJson exampleRequire (Some exampleManifest) initialWorld =
        (Inr [Some ''A'', Some ''C''], w2) \<and>
      in_turn loadRuntimePlugin [a, c] w1 [Some ''A'', Some ''C''] w2 \<and>
      (\<exists>v. loadRuntimePlugin a w1 = (Inr (Some ''A''), v) \<and>
            loadRuntimePlugin c v = (Inr (Some ''C''), w2)))"
proof -
  have names: "pumpkinsPluginDepNames exampleManifest =
     [js ''pumpkins-plugin-a'', js ''pumpkins-plugin-b'', js ''pumpkins-plugin-c'']"
    by (simp add: example_defs matcher_defs)
  have "\<exists>plugins w1 a c.
      doLoadAllFromPackageJson exampleRequire (Some exampleManifest) initialWorld =
        (Inr plugins, w1) \<and>
      map name plugins = [js ''a'', js ''b'', js ''c''] \<and>
      filter extendsRuntime plugins = [a, c] \<and> name a = js ''a'' \<and> name c = js ''c''"
    by (simp add: doLoadAllFromPackageJson_Some names)
       (simp add: example_defs matcher_defs load_defs)
  then obtain plugins w1 a c where
    load: "doLoadAllFromPackageJson exampleRequire (Some exampleManifest) initialWorld =
             (Inr plugins, w1)"
    and ns: "map name plugins = [js ''a'', js ''b'', js ''c'']"
    and rt: "filter extendsRuntime plugins = [a, c]" "name a = js ''a''" "name c = js ''c''"
    by auto
  have "\<exists>w2. loadAllRuntimePluginsFromPackageJson exampleRequire (Some exampleManifest)
          initialWorld = (Inr [Some ''A'', Some ''C''], w2)"
    by (simp add: loadAllRuntimePluginsFromPackageJson_def loadAllFromPackageJson_def
          doLoadAllFromPackageJson_Some names)
       (simp add: example_defs matcher_defs load_defs)
  then obtain w2 where
    agg: "loadAllRuntimePluginsFromPackageJson exampleRequire (Some exampleManifest) initialWorld =
          (Inr [Some ''A'', Some ''C''], w2)"
    by blast
  note inst = aggregation_preserves_manifest_order[where require=exampleRequire
      and pkg=exampleManifest and w=initialWorld and layout="''/app''" and 'r="string option"]
  note runtime = inst[THEN conjunct2, THEN conjunct2, THEN conjunct2, THEN conjunct1, rule_format]
  note turns = inst[THEN conjunct2, THEN conjunct2, THEN conjunct2, THEN conjunct2,
      THEN conjunct2, rule_format]
  from runtime[THEN iffD1, OF agg] obtain plugins' w1' where
    "doLoadAllFromPackageJson exampleRequire (Some exampleManifest) initialWorld =
       (Inr plugins', w1')"
    "in_turn loadRuntimePlugin (filter extendsRuntime plugins') w1' [Some ''A'', Some ''C''] w2"
    by blast
  with load rt(1) have turn: "in_turn loadRuntimePlugin [a, c] w1 [Some ''A'', Some ''C''] w2"
    by simp
  from turns[OF turn] obtain vs where vs: "vs ! 0 = w1" "vs ! length [a, c] = w2"
    and step: "\<forall>i<length [a, c]. loadRuntimePlugin ([a, c] ! i) (vs ! i) =
                 (Inr ([Some ''A'', Some ''C''] ! i), vs ! Suc i)"
    by blast
  from step[rule_format, of 0] vs have 0: "loadRuntimePlugin a w1 = (Inr (Some ''A''), vs ! 1)"
    by simp
  from step[rule_format, of 1] vs have 1: "loadRuntimePlugin c (vs ! 1) = (Inr (Some ''C''), w2)"
    by (simp add: numeral_2_eq_2)
  from 0 1 have "\<exists>v. loadRuntimePlugin a w1 = (Inr (Some ''A''), v) \<and>
            loadRuntimePlugin c v = (Inr (Some ''C''), w2)"
    by blast
  with load ns rt agg turn have "\<exists>plugins w1 w2 a c.
      doLoadAllFromPackageJson exampleRequire (Some exampleManifest) initialWorld =
        (Inr plugins, w1) \<and>
      map name plugins = [js ''a'', js ''b'', js ''c''] \<and>
      filter extendsRuntime plugins = [a, c] \<and> name a = js ''a'' \<and> name c = js ''c'' \<and>
      loadAllRuntimePluginsFromPackageJson exampleRequire (Some exampleManifest) initialWorld =
        (Inr [Some ''A'', Some ''C''], w2) \<and>
      in_turn loadRuntimePlugin [a, c] w1 [Some ''A'', Some ''C''] w2 \<and>
      (\<exists>v. loadRuntimePlugin a w1 = (Inr (Some ''A''), v) \<and>
            loadRuntimePlugin c v = (Inr (Some ''C''), w2))"
    by (intro exI[of _ plugins] exI[of _ w1] exI[of _ w2] exI[of _ a] exI[of _ c]) simp
  with names show ?thesis by (rule conjI)
qed

subsection \<open>C6: no manifest, no dependencies\<close>

text \<open>
  C6. When the manifest read yields \<^verbatim>\<open>undefined\<close>, and when the manifest has no entry under
  \<^verbatim>\<open>dependencies\<close> (the key is missing, or it holds \<^verbatim>\<open>null\<close> or the empty object), the load
  returns the empty Driver list, and the workflow and runtime aggregations return the empty
  list. Nothing is resolved, nothing ends fatally, and the state is the one before the call.
\<close>

theorem empty_manifest_loads_nothing:
  "doLoadAllFromPackageJson require None w = (Inr [], w) \<and>
   loadAllFromPackageJson require None w = (Inr [], w) \<and>
   loadAllFromPackageJsonSync require None w = (Inr [], w) \<and>
   loadAllWorkflowPluginsFromPackageJson require None layout w = (Inr [], w) \<and>
   loadAllRuntimePluginsFromPackageJson require None w = (Inr [], w) \<and>
   loadAllRuntimePluginsFromPackageJsonSync require None w = (Inr [], w) \<and>
   (objectKeys (depsOf pkg) = [] \<longrightarrow>
      doLoadAllFromPackageJson require (Some pkg) w = (Inr [], w) \<and>
      loadAllFromPackageJson require (Some pkg) w = (Inr [], w) \<and>
      loadAllFromPackageJsonSync require (Some pkg) w = (Inr [], w) \<and>
      loadAllWorkflowPluginsFromPackageJson require (Some pkg) layout w = (Inr [], w) \<and>
      loadAllRuntimePluginsFromPackageJson require (Some pkg) w = (Inr [], w) \<and>
      loadAllRuntimePluginsFromPackageJsonSync require (Some pkg) w = (Inr [], w)) \<and>
   (dependenciesOf pkg = None \<or> dependenciesOf pkg = Some JNull \<or>
    dependenciesOf pkg = Some (JObject []) \<longrightarrow> objectKeys (depsOf pkg) = [])"
proof -
  have none: "doLoadAllFromPackageJson require None w = (Inr [], w)"
    by (simp add: doLoadAllFromPackageJson_def)
  have some: "objectKeys (depsOf pkg) = [] \<longrightarrow>
      doLoadAllFromPackageJson require (Some pkg) w = (Inr [], w)"
    by (simp add: doLoad_no_entries)
  have shape: "dependenciesOf pkg = None \<or> dependenciesOf pkg = Some JNull \<or>
    dependenciesOf pkg = Some (JObject []) \<longrightarrow> objectKeys (depsOf pkg) = []"
    by (auto simp add: depsOf_def)
  from none some shape
    aggregate_nothing[where require=require and packageJson=None and w=w and layout=layout]
    aggregate_nothing[where require=require and packageJson="Some pkg" and w=w and layout=layout]
  show ?thesis by blast
qed

text \<open>An instance: a manifest that holds a name and nothing else.\<close>

theorem empty_manifest_loads_nothing_witness:
  "doLoadAllFromPackageJson exampleRequire None initialWorld = (Inr [], initialWorld) \<and>
   objectKeys (depsOf (JObject [(js ''name'', JString (js ''app''))])) = [] \<and>
   doLoadAllFromPackageJson exampleRequire (Some (JObject [(js ''name'', JString (js ''app''))]))
     initialWorld = (Inr [], initialWorld) \<and>
   loadAllWorkflowPluginsFromPackageJson exampleRequire (Some (JObject [(js ''name'', JString (js ''app''))]))
     ''/app'' initialWorld = (Inr [], initialWorld) \<and>
   loadAllRuntimePluginsFromPackageJsonSync exampleRequire (Some (JObject [(js ''name'', JString (js ''app''))]))
     initialWorld = (Inr [], initialWorld)"
proof -
  have e: "objectKeys (depsOf (JObject [(js ''name'', JString (js ''app''))])) = []"
    by (simp add: depsOf_def js_def)
  from empty_manifest_loads_nothing[where require=exampleRequire and w=initialWorld
      and layout="''/app''" and pkg="JObject [(js ''name'', JString (js ''app''))]"] e
  show ?thesis by blast
qed

subsection \<open>C7: the blocking and the suspension-capable entry points\<close>

text \<open>
  C7. Given the same manifest document (and the same \<^verbatim>\<open>require\<close> and state),
  \<^verbatim>\<open>loadAllFromPackageJsonSync\<close> returns what \<^verbatim>\<open>loadAllFromPackageJson\<close> resolves to, and
  \<^verbatim>\<open>loadAllRuntimePluginsFromPackageJsonSync\<close> what \<^verbatim>\<open>loadAllRuntimePluginsFromPackageJson\<close> resolves
  to: the same result and the same state after it.
\<close>

theorem sync_async_same:
  "loadAllFromPackageJsonSync require packageJson w =
     loadAllFromPackageJson require packageJson w \<and>
   loadAllRuntimePluginsFromPackageJsonSync require packageJson w =
     loadAllRuntimePluginsFromPackageJson require packageJson w"
  by (simp add: loadAllFromPackageJsonSync_def loadAllFromPackageJson_def
      loadAllRuntimePluginsFromPackageJsonSync_def loadAllRuntimePluginsFromPackageJson_def)

subsection \<open>C8: one application of a Driver Creator\<close>




subsection \<open>C9: calling a loader twice\<close>

text \<open>
  C9. Take a Driver that a function returned by \<^verbatim>\<open>create\<close> produced, and a state \<open>v\<close> of the
  store in which the registered workflow definer and the registered runtime producer, if
  any, are pure: their result is a function of their arguments and they leave the outside
  state as it was. Then a second call of \<^verbatim>\<open>loadWorkflowPlugin(layout)\<close>, made in the state the
  first call left, returns what the first call returned, and so does a second call of
  \<^verbatim>\<open>loadRuntimePlugin()\<close>. Each hooks record is what the definer makes of a fresh default
  record, each runtime result what the producer returns; the loaders register nothing.
\<close>

theorem loaders_repeatable:
  assumes "create d w0 = (creator, w1)" and "creator pluginName w = (Inr driver, w')"
    and "\<forall>f. maybeWorkflowPlugin (closures v (next_closure w0)) = Some f \<longrightarrow>
           (\<exists>g. \<forall>hooks l x. f hooks l x = (g hooks l, x))"
    and "\<forall>f. maybeRuntimePlugin (closures v (next_closure w0)) = Some f \<longrightarrow>
           (\<exists>c. \<forall>x. f x = (c, x))"
  shows "loadWorkflowPlugin driver layout (snd (loadWorkflowPlugin driver layout v)) =
           loadWorkflowPlugin driver layout v \<and>
         loadRuntimePlugin driver (snd (loadRuntimePlugin driver v)) = loadRuntimePlugin driver v \<and>
         fst (loadWorkflowPlugin driver layout v) =
           (case maybeWorkflowPlugin (closures v (next_closure w0)) of
              None \<Rightarrow> Inr defaultHooks
            | Some f \<Rightarrow> fst (f defaultHooks layout (external v))) \<and>
         fst (loadRuntimePlugin driver v) =
           (case maybeRuntimePlugin (closures v (next_closure w0)) of
              None \<Rightarrow> Inr None
            | Some f \<Rightarrow> map_sum id Some (fst (f (external v)))) \<and>
         snd (loadWorkflowPlugin driver layout v) = v \<and>
         snd (loadRuntimePlugin driver v) = v"
proof -
  from create_eq[OF assms(1)] have c: "creator = driverCreator (next_closure w0)" by simp
  from driverCreator_driver[OF assms(2)[unfolded c]]
  have lw: "loadWorkflowPlugin driver = driver_loadWorkflowPlugin (next_closure w0)"
    and lr: "loadRuntimePlugin driver = driver_loadRuntimePlugin (next_closure w0)"
    by simp_all
  have "fst (driver_loadWorkflowPlugin (next_closure w0) layout v) =
           (case maybeWorkflowPlugin (closures v (next_closure w0)) of
              None \<Rightarrow> Inr defaultHooks
            | Some f \<Rightarrow> fst (f defaultHooks layout (external v)))"
    by (auto simp add: driver_loadWorkflowPlugin_def Let_def
        split: option.splits prod.splits sum.splits)
  moreover have "fst (driver_loadRuntimePlugin (next_closure w0) v) =
           (case maybeRuntimePlugin (closures v (next_closure w0)) of
              None \<Rightarrow> Inr None
            | Some f \<Rightarrow> map_sum id Some (fst (f (external v))))"
    by (auto simp add: driver_loadRuntimePlugin_def split: option.splits prod.splits sum.splits)
  ultimately show ?thesis
    using driver_loadWorkflowPlugin_pure[OF assms(3), of layout]
      driver_loadRuntimePlugin_pure[OF assms(4)]
    by (simp add: lw lr)
qed

text \<open>An instance: the Driver of the plugin that registers both, loaded twice.\<close>

theorem loaders_repeatable_witness:
  "\<exists>creator w1 driver w'.
     create pluginC initialWorld = (creator, w1) \<and>
     creator (js ''c'') w1 = (Inr driver, w') \<and>
     loadWorkflowPlugin driver ''/app'' (snd (loadWorkflowPlugin driver ''/app'' w')) =
       loadWorkflowPlugin driver ''/app'' w' \<and>
     loadRuntimePlugin driver (snd (loadRuntimePlugin driver w')) = loadRuntimePlugin driver w' \<and>
     fst (loadRuntimePlugin driver w') = Inr (Some ''C'')"
proof -
  obtain creator w1 where c: "create pluginC initialWorld = (creator, w1)"
    by (cases "create pluginC initialWorld")
  have "\<exists>driver w'. creator (js ''c'') w1 = (Inr driver, w') \<and>
          (\<exists>g. maybeWorkflowPlugin (closures w' (next_closure initialWorld)) =
                  Some (\<lambda>hooks l x. (g hooks l, x))) \<and>
          maybeRuntimePlugin (closures w' (next_closure initialWorld)) = Some (\<lambda>x. (Inr ''C'', x))"
    using c by (auto simp add: example_defs load_defs)
  then obtain driver w' g where a: "creator (js ''c'') w1 = (Inr driver, w')"
    and wf: "maybeWorkflowPlugin (closures w' (next_closure initialWorld)) =
                  Some (\<lambda>hooks l x. (g hooks l, x))"
    and rt: "maybeRuntimePlugin (closures w' (next_closure initialWorld)) =
                  Some (\<lambda>x. (Inr ''C'', x))"
    by blast
  have pw: "\<forall>f. maybeWorkflowPlugin (closures w' (next_closure initialWorld)) = Some f \<longrightarrow>
           (\<exists>g. \<forall>hooks l x. f hooks l x = (g hooks l, x))"
    using wf by auto
  have pr: "\<forall>f. maybeRuntimePlugin (closures w' (next_closure initialWorld)) = Some f \<longrightarrow>
           (\<exists>c. \<forall>x. f x = (c, x))"
    using rt by auto
  from loaders_repeatable[OF c a pw pr, of "''/app''"] rt c a show ?thesis by auto
qed

subsection \<open>C10: only the dependencies key is read\<close>

text \<open>
  C10. The load and the aggregations of a manifest depend on nothing of it but the value
  under its \<^verbatim>\<open>dependencies\<close> key: two manifests with the same value there give the same
  results. The identifiers that are instantiated are those the matcher accepts among the
  names under that key, so an identifier that is not one of those names, whatever other key
  holds it, is not instantiated; and a manifest without the key, whatever it lists under
  \<^verbatim>\<open>devDependencies\<close> or any other key, yields no Driver and empty aggregation lists.
\<close>

theorem only_dependencies_are_read:
  "(dependenciesOf pkg = dependenciesOf pkg' \<longrightarrow>
      doLoadAllFromPackageJson require (Some pkg) w =
        doLoadAllFromPackageJson require (Some pkg') w \<and>
      loadAllWorkflowPluginsFromPackageJson require (Some pkg) layout w =
        loadAllWorkflowPluginsFromPackageJson require (Some pkg') layout w \<and>
      loadAllRuntimePluginsFromPackageJson require (Some pkg) w =
        loadAllRuntimePluginsFromPackageJson require (Some pkg') w \<and>
      loadAllRuntimePluginsFromPackageJsonSync require (Some pkg) w =
        loadAllRuntimePluginsFromPackageJsonSync require (Some pkg') w) \<and>
   doLoadAllFromPackageJson require (Some pkg) w =
     array_map (instantiatePlugin require) (pumpkinsPluginDepNames pkg) w \<and>
   (\<forall>depName. depName \<notin> set (objectKeys (depsOf pkg)) \<longrightarrow>
      depName \<notin> set (pumpkinsPluginDepNames pkg)) \<and>
   (\<forall>kvs. js ''dependencies'' \<notin> fst ` set kvs \<longrightarrow>
      doLoadAllFromPackageJson require (Some (JObject kvs)) w = (Inr [], w) \<and>
      loadAllWorkflowPluginsFromPackageJson require (Some (JObject kvs)) layout w = (Inr [], w) \<and>
      loadAllRuntimePluginsFromPackageJson require (Some (JObject kvs)) w = (Inr [], w) \<and>
      loadAllRuntimePluginsFromPackageJsonSync require (Some (JObject kvs)) w = (Inr [], w))"
proof -
  have same: "dependenciesOf pkg = dependenciesOf pkg' \<longrightarrow>
      doLoadAllFromPackageJson require (Some pkg) w =
        doLoadAllFromPackageJson require (Some pkg') w"
    by (simp add: doLoadAllFromPackageJson_def depsOf_def)
  then have agg: "dependenciesOf pkg = dependenciesOf pkg' \<longrightarrow>
      loadAllWorkflowPluginsFromPackageJson require (Some pkg) layout w =
        loadAllWorkflowPluginsFromPackageJson require (Some pkg') layout w \<and>
      loadAllRuntimePluginsFromPackageJson require (Some pkg) w =
        loadAllRuntimePluginsFromPackageJson require (Some pkg') w \<and>
      loadAllRuntimePluginsFromPackageJsonSync require (Some pkg) w =
        loadAllRuntimePluginsFromPackageJsonSync require (Some pkg') w"
    by (simp add: loadAllWorkflowPluginsFromPackageJson_def loadAllRuntimePluginsFromPackageJson_def
        loadAllRuntimePluginsFromPackageJsonSync_def loadAllFromPackageJson_def
        loadAllFromPackageJsonSync_def)
  have sub: "\<forall>depName. depName \<notin> set (objectKeys (depsOf pkg)) \<longrightarrow>
      depName \<notin> set (pumpkinsPluginDepNames pkg)"
    by (simp add: pumpkinsPluginDepNames_def)
  have other: "\<forall>kvs. js ''dependencies'' \<notin> fst ` set kvs \<longrightarrow>
      doLoadAllFromPackageJson require (Some (JObject kvs)) w = (Inr [], w) \<and>
      loadAllWorkflowPluginsFromPackageJson require (Some (JObject kvs)) layout w = (Inr [], w) \<and>
      loadAllRuntimePluginsFromPackageJson require (Some (JObject kvs)) w = (Inr [], w) \<and>
      loadAllRuntimePluginsFromPackageJsonSync require (Some (JObject kvs)) w = (Inr [], w)"
  proof (intro allI impI)
    fix kvs :: "(jsstring \<times> json) list"
    assume "js ''dependencies'' \<notin> fst ` set kvs"
    then have "dependenciesOf (JObject kvs) = None"
      by (simp add: map_of_eq_None_iff)
    then have "doLoadAllFromPackageJson require (Some (JObject kvs)) w = (Inr [], w)"
      by (simp add: doLoad_no_entries depsOf_missing)
    from this aggregate_nothing[where require=require and packageJson="Some (JObject kvs)"
        and w=w and layout=layout]
    show "doLoadAllFromPackageJson require (Some (JObject kvs)) w = (Inr [], w) \<and>
      loadAllWorkflowPluginsFromPackageJson require (Some (JObject kvs)) layout w = (Inr [], w) \<and>
      loadAllRuntimePluginsFromPackageJson require (Some (JObject kvs)) w = (Inr [], w) \<and>
      loadAllRuntimePluginsFromPackageJsonSync require (Some (JObject kvs)) w = (Inr [], w)"
      by blast
  qed
  from same agg sub other show ?thesis
    by (simp add: doLoadAllFromPackageJson_Some)
qed

text \<open>An instance: \<^verbatim>\<open>pumpkins-plugin-dev\<close> stands under \<^verbatim>\<open>devDependencies\<close> only.\<close>

theorem only_dependencies_are_read_witness:
  "js ''pumpkins-plugin-dev'' \<notin> set (pumpkinsPluginDepNames exampleManifest) \<and>
   doLoadAllFromPackageJson exampleRequire
     (Some (JObject [(js ''devDependencies'', JObject [(js ''pumpkins-plugin-dev'', JString (js ''1.0.0''))])]))
     initialWorld = (Inr [], initialWorld) \<and>
   loadAllRuntimePluginsFromPackageJson exampleRequire
     (Some (JObject [(js ''devDependencies'', JObject [(js ''pumpkins-plugin-dev'', JString (js ''1.0.0''))])]))
     initialWorld = (Inr [], initialWorld)"
proof -
  have k: "js ''pumpkins-plugin-dev'' \<notin> set (objectKeys (depsOf exampleManifest))"
    by (simp add: exampleManifest_def depsOf_def js_def)
  have o: "js ''dependencies'' \<notin>
             fst ` set [(js ''devDependencies'', JObject [(js ''pumpkins-plugin-dev'', JString (js ''1.0.0''))])]"
    by (simp add: js_def)
  note inst = only_dependencies_are_read[where require=exampleRequire and w=initialWorld
      and layout="''/app''" and pkg=exampleManifest and pkg'=exampleManifest]
  from inst k have 1: "js ''pumpkins-plugin-dev'' \<notin> set (pumpkinsPluginDepNames exampleManifest)"
    by blast
  from inst have "\<forall>kvs. js ''dependencies'' \<notin> fst ` set kvs \<longrightarrow>
      doLoadAllFromPackageJson exampleRequire (Some (JObject kvs)) initialWorld =
        (Inr [], initialWorld) \<and>
      loadAllWorkflowPluginsFromPackageJson exampleRequire (Some (JObject kvs)) ''/app'' initialWorld =
        (Inr [], initialWorld) \<and>
      loadAllRuntimePluginsFromPackageJson exampleRequire (Some (JObject kvs)) initialWorld =
        (Inr [], initialWorld) \<and>
      loadAllRuntimePluginsFromPackageJsonSync exampleRequire (Some (JObject kvs)) initialWorld =
        (Inr [], initialWorld)"
    by blast
  with o 1 show ?thesis by blast
qed

end
